theory Spec2Isabelle
  imports Complex_Main "HOL-Library.Log_Nat"
begin

section \<open>BizzBook: the route handlers over the document store\<close>

text \<open>
  The development embeds the route handlers of \<^verbatim>\<open>index.js\<close>, \<^verbatim>\<open>routes/userRouter.js\<close>,
  \<^verbatim>\<open>routes/businessRouter.js\<close>, \<^verbatim>\<open>routes/productRouter.js\<close> and \<^verbatim>\<open>routes/invoiceRouter.js\<close>
  together with the mongoose schemas they use (\<^verbatim>\<open>userModel\<close>, \<^verbatim>\<open>businessModel\<close>,
  \<^verbatim>\<open>productModel\<close>, \<^verbatim>\<open>invoiceModel\<close>).

  \<^item> A collection is a finite map from \<^verbatim>\<open>_id\<close> to document together with the list of its
    \<^verbatim>\<open>_id\<close>s in insertion order (users, businesses, products), or a list of documents in
    insertion order (invoices, whose unique indexes are searched).
  \<^item> A JavaScript \<^verbatim>\<open>Number\<close> is an IEEE 754 double: its exact value is kept as a rational,
    and every \<^verbatim>\<open>+\<close>, \<^verbatim>\<open>-\<close> and \<^verbatim>\<open>*\<close> of the handlers rounds its exact result to the nearest
    double. A time (\<^verbatim>\<open>Date.now()\<close>, a \<^verbatim>\<open>Date\<close> field) is a whole number of milliseconds.
  \<^item> A request body holds the fields that the documentation of its route lists, of the
    documented types; a field that the handler tests for, or that the documentation does
    not require, may be absent (\<^term>\<open>None\<close>).
  \<^item> An \<^verbatim>\<open>ObjectId\<close> is a string; malformed identifiers are outside the model.
  \<^item> Every \<^verbatim>\<open>await\<close> on the store is one constructor of the type \<open>prog\<close>, with the
    rest of the handler as its continuation, so a handler can be run alone (\<open>exec\<close>),
    under interference of other requests (\<open>exec_env\<close>) or interleaved with other
    handlers under a schedule (\<open>run_sched\<close>).
  \<^item> An exception thrown inside a handler's \<^verbatim>\<open>try\<close> block is a value of type \<open>error\<close>
    handed to the continuation, which answers as the \<^verbatim>\<open>catch\<close> block does.
  \<^item> What a library computes outside the store comes with the request: the \<^verbatim>\<open>_id\<close> that
    \<^verbatim>\<open>new Model(...)\<close> generates, the hash that \<^verbatim>\<open>bcrypt.hash\<close> returns, the functions
    \<^verbatim>\<open>bcrypt.compare\<close> and \<^verbatim>\<open>jwt.sign\<close>.
  The middlewares \<^verbatim>\<open>authMiddleware\<close> and \<^verbatim>\<open>authorizeRoles\<close> run before a handler; a
  handler receives their result, the authenticated principal \<^verbatim>\<open>req.user\<close>. The pages that
  \<^verbatim>\<open>swagger-ui-express\<close> serves under \<^verbatim>\<open>/api-docs\<close> do not touch the store.
\<close>

subsection \<open>Numbers\<close>

text \<open>
  The value of a finite double is a rational. NaN and the infinities (a result of
  magnitude \<open>2\<^sup>1\<^sup>0\<^sup>2\<^sup>4\<close> or more) are outside the model, and \<^verbatim>\<open>-0\<close> is \<open>0\<close>; comparisons
  of numbers are exact.
\<close>

type_synonym number = rat

text \<open>\<open>\<lfloor>log\<^sub>2 x\<rfloor>\<close> for a positive \<open>x\<close>.\<close>

definition ilog2 :: "rat \<Rightarrow> int" where
  "ilog2 x = (if 1 \<le> x then bitlen \<lfloor>x\<rfloor> - 1 else - bitlen (\<lceil>1 / x\<rceil> - 1))"

definition round_half_even :: "rat \<Rightarrow> int" where
  "round_half_even x =
     (let f = \<lfloor>x\<rfloor>; d = x - of_int f
      in if d < 1 / 2 then f else if 1 / 2 < d then f + 1 else if even f then f else f + 1)"

text \<open>
  Rounding to the nearest double, ties to the even significand: 53 significant bits, with
  the spacing of the subnormal numbers below \<open>2\<^sup>-\<^sup>1\<^sup>0\<^sup>2\<^sup>2\<close>.
\<close>

definition to_double :: "rat \<Rightarrow> number" where
  "to_double x =
     (if x = 0 then 0
      else (let ulp = 2 powi (max (ilog2 \<bar>x\<bar>) (- 1022) - 52)
            in of_int (round_half_even (x / ulp)) * ulp))"

text \<open>The operators \<^verbatim>\<open>+\<close>, \<^verbatim>\<open>-\<close> and \<^verbatim>\<open>*\<close> on numbers.\<close>

definition num_add :: "number \<Rightarrow> number \<Rightarrow> number" where
  "num_add x y = to_double (x + y)"

definition num_sub :: "number \<Rightarrow> number \<Rightarrow> number" where
  "num_sub x y = to_double (x - y)"

definition num_mul :: "number \<Rightarrow> number \<Rightarrow> number" where
  "num_mul x y = to_double (x * y)"

text \<open>\<^verbatim>\<open>Number.isInteger\<close>\<close>

definition isInteger :: "number \<Rightarrow> bool" where
  "isInteger x = (of_int \<lfloor>x\<rfloor> = x)"

text \<open>Decimal rendering of a whole number, as a template literal produces it.\<close>

function show_digits :: "int \<Rightarrow> string" where
  "show_digits n =
     (if n < 10 then [''0123456789'' ! nat n]
      else show_digits (n div 10) @ [''0123456789'' ! nat (n mod 10)])"
  by pat_completeness auto
termination
  by (relation "measure nat") auto

declare show_digits.simps [simp del]

definition show_int :: "int \<Rightarrow> string" where
  "show_int i = (if i < 0 then ''-'' @ show_digits (- i) else show_digits i)"

text \<open>
  The rendering of a number in a template literal (\<^verbatim>\<open>Number::toString\<close>): the fewest
  decimal digits \<open>s\<close> (\<open>k\<close> of them) and the exponent \<open>n\<close> such that \<open>s \<times> 10\<^sup>n\<^sup>-\<^sup>k\<close> reads back as
  the same double, the closest to it when several do; written without an exponent when
  \<open>-6 < n \<le> 21\<close>.
\<close>

definition ilog10 :: "rat \<Rightarrow> int" where
  "ilog10 x = (if 1 \<le> x then int (length (show_digits \<lfloor>x\<rfloor>)) - 1
               else - int (length (show_digits (\<lceil>1 / x\<rceil> - 1))))"

definition digits_for :: "nat \<Rightarrow> rat \<Rightarrow> (int \<times> int) list" where
  "digits_for k x =
     (let n = ilog10 x + 1;
          lo = \<lfloor>x / 10 powi (n - int k)\<rfloor>;
          cands = [(lo, n), if lo + 1 = 10 ^ k then (10 ^ (k - 1), n + 1) else (lo + 1, n)]
      in filter (\<lambda>(s, n). to_double (of_int s * 10 powi (n - int k)) = x) cands)"

definition closest :: "rat \<Rightarrow> nat \<Rightarrow> (int \<times> int) list \<Rightarrow> (int \<times> int) option" where
  "closest x k cands =
     (case cands of
        [] \<Rightarrow> None
      | [c] \<Rightarrow> Some c
      | (s1, n1) # (s2, n2) # _ \<Rightarrow>
          (let d1 = \<bar>x - of_int s1 * 10 powi (n1 - int k)\<bar>;
               d2 = \<bar>x - of_int s2 * 10 powi (n2 - int k)\<bar>
           in if d1 < d2 \<or> (d1 = d2 \<and> even s1) then Some (s1, n1) else Some (s2, n2)))"

function shortest_from :: "nat \<Rightarrow> rat \<Rightarrow> nat \<times> int \<times> int" where
  "shortest_from k x =
     (if 17 \<le> k then (case closest x k (digits_for k x) of
                          None \<Rightarrow> (k, \<lfloor>x / 10 powi (ilog10 x + 1 - int k)\<rfloor>, ilog10 x + 1)
                        | Some (s, n) \<Rightarrow> (k, s, n))
      else (case closest x k (digits_for k x) of
              None \<Rightarrow> shortest_from (Suc k) x
            | Some (s, n) \<Rightarrow> (k, s, n)))"
  by pat_completeness auto
termination
  by (relation "measure (\<lambda>(k, x). 17 - k)") auto

declare shortest_from.simps [simp del]

definition shortest_digits :: "rat \<Rightarrow> nat \<times> int \<times> int" where
  "shortest_digits x = shortest_from 1 x"

definition show_positive :: "rat \<Rightarrow> string" where
  "show_positive x =
     (let (k, s, n) = shortest_digits x; ds = show_digits s in
      if int k \<le> n \<and> n \<le> 21 then ds @ replicate (nat (n - int k)) CHR ''0''
      else if 0 < n \<and> n \<le> 21 then take (nat n) ds @ ''.'' @ drop (nat n) ds
      else if - 6 < n \<and> n \<le> 0 then ''0.'' @ replicate (nat (- n)) CHR ''0'' @ ds
      else (let e = n - 1; es = (if e < 0 then ''-'' else ''+'') @ show_digits \<bar>e\<bar> in
            if k = 1 then ds @ ''e'' @ es else take 1 ds @ ''.'' @ drop 1 ds @ ''e'' @ es))"

definition show_number :: "number \<Rightarrow> string" where
  "show_number x =
     (if x = 0 then ''0'' else if x < 0 then ''-'' @ show_positive (- x) else show_positive x)"

subsection \<open>Documents\<close>

type_synonym objectId = string

record product =
  name :: string
  description :: string
  price :: number
  quantity :: number
  businessId :: objectId
  createdAt :: int

datatype role = Admin | Manager | Employee | Customer

record user =
  user_name :: string
  user_email :: string
  password :: string
  user_role :: role
  user_businessId :: "objectId option"

record business_doc =
  business_name :: string
  address :: "string option"
  phone :: "string option"
  business_email :: "string option"
  business_createdAt :: int
  owner :: objectId

text \<open>An element of the \<^verbatim>\<open>products\<close> array of an invoice.\<close>

record line =
  line_product :: objectId
  line_quantity :: number
  pricePerUnit :: number
  totalPrice :: number

record invoice =
  invoice_id :: objectId
  customer :: objectId
  business :: objectId
  products :: "line list"
  totalAmount :: number
  purchaseDate :: int
  invoiceNumber :: string

text \<open>
  What \<^verbatim>\<open>new invoiceModel({customer, business, products, totalAmount})\<close> holds before it
  is saved: the \<^verbatim>\<open>_id\<close> the driver generated, the four fields the handler passes, and no
  \<^verbatim>\<open>invoiceNumber\<close>.
\<close>

record invoice_draft =
  d_id :: objectId
  d_customer :: objectId
  d_business :: "objectId option"
  d_products :: "line list"
  d_totalAmount :: number
  d_invoiceNumber :: "string option"

text \<open>
  An invoice as \<^verbatim>\<open>populate('customer', 'name email')\<close>, \<^verbatim>\<open>populate('business', 'name')\<close>
  and \<^verbatim>\<open>populate('products.product', 'name')\<close> return it: each reference is replaced by
  the selected fields of the document it names, or by \<^verbatim>\<open>null\<close> when there is none. A
  reference to a user populated with \<^verbatim>\<open>'name email'\<close> is a \<open>customer_ref\<close>.
\<close>

record customer_ref =
  cr_id :: objectId
  cr_name :: string
  cr_email :: string

record named_ref =
  nr_id :: objectId
  nr_name :: string

record populated_line =
  pl_product :: "named_ref option"
  pl_quantity :: number
  pl_pricePerUnit :: number
  pl_totalPrice :: number

record populated_invoice =
  pi_id :: objectId
  pi_customer :: "customer_ref option"
  pi_business :: "named_ref option"
  pi_products :: "populated_line list"
  pi_totalAmount :: number
  pi_purchaseDate :: int
  pi_invoiceNumber :: string

text \<open>A business as \<^verbatim>\<open>populate('owner', 'name email')\<close> returns it.\<close>

record populated_business =
  bv_id :: objectId
  bv_name :: string
  bv_address :: "string option"
  bv_phone :: "string option"
  bv_email :: "string option"
  bv_createdAt :: int
  bv_owner :: "customer_ref option"

text \<open>A user as \<^verbatim>\<open>find({}, '-password')\<close> returns it.\<close>

record user_view =
  uv_id :: objectId
  uv_name :: string
  uv_email :: string
  uv_role :: role
  uv_businessId :: "objectId option"

subsection \<open>Request bodies\<close>

text \<open>\<^verbatim>\<open>POST /users/signup\<close> and \<^verbatim>\<open>POST /users/login\<close>\<close>

record signup_body =
  sb_name :: string
  sb_email :: string
  sb_password :: string
  sb_role :: string
  sb_businessId :: objectId

record login_body =
  lb_email :: "string option"
  lb_password :: "string option"

text \<open>\<^verbatim>\<open>POST /business\<close> and \<^verbatim>\<open>PUT /business/:id\<close>\<close>

record business_body =
  bb_name :: "string option"
  bb_address :: "string option"
  bb_phone :: "string option"
  bb_email :: "string option"

text \<open>\<^verbatim>\<open>POST /product\<close>\<close>

record product_body =
  pb_name :: string
  pb_description :: string
  pb_price :: number
  pb_quantity :: number
  pb_businessId :: objectId

text \<open>
  The body of \<^verbatim>\<open>PUT /product/:id\<close>: the schema paths it sets. \<^verbatim>\<open>findByIdAndUpdate\<close>
  applies them to the stored document.
\<close>

record product_update =
  set_name :: "string option"
  set_description :: "string option"
  set_price :: "number option"
  set_quantity :: "number option"
  set_businessId :: "objectId option"

text \<open>
  An element of \<^verbatim>\<open>products\<close> in the body of \<^verbatim>\<open>POST /invoice\<close>: the fields \<^verbatim>\<open>product\<close> and
  \<^verbatim>\<open>quantity\<close>. The model covers items that carry both, the quantity being a number of
  any sign.
\<close>

record item =
  item_product :: objectId
  item_quantity :: number

text \<open>
  The JSON body of \<^verbatim>\<open>POST /invoice\<close>. The handler destructures \<^verbatim>\<open>products\<close> and
  \<^verbatim>\<open>business\<close>; \<^verbatim>\<open>body_customer\<close> and \<^verbatim>\<open>body_invoiceNumber\<close> stand for fields a
  client may send besides.
\<close>

record invoice_body =
  body_products :: "item list option"
  body_business :: "objectId option"
  body_customer :: "objectId option"
  body_invoiceNumber :: "string option"

text \<open>
  \<^verbatim>\<open>req.user\<close>: the handlers read \<^verbatim>\<open>req.user.userId\<close>, \<^verbatim>\<open>req.user.role\<close> and
  \<^verbatim>\<open>req.user._id\<close> (\<open>user_id\<close>, which a principal decoded from a token does not have).
\<close>

record req_user =
  userId :: objectId
  role :: role
  user_id :: "objectId option"

subsection \<open>The store\<close>

record world =
  productModel :: "objectId \<rightharpoonup> product"
  productIds :: "objectId list"
  invoiceModel :: "invoice list"
  userModel :: "objectId \<rightharpoonup> user"
  userIds :: "objectId list"
  businessModel :: "objectId \<rightharpoonup> business_doc"
  businessIds :: "objectId list"
  clock :: int

datatype error =
    DuplicateKey string
  | ValidationFailed string
  | DocumentNotFound
  | TypeError

text \<open>The documents of a collection, as \<^verbatim>\<open>find()\<close> returns them.\<close>

definition all_products :: "world \<Rightarrow> (objectId \<times> product) list" where
  "all_products w = List.map_filter (\<lambda>i. map_option (Pair i) (productModel w i)) (productIds w)"

definition all_users :: "world \<Rightarrow> (objectId \<times> user) list" where
  "all_users w = List.map_filter (\<lambda>i. map_option (Pair i) (userModel w i)) (userIds w)"

definition all_businesses :: "world \<Rightarrow> (objectId \<times> business_doc) list" where
  "all_businesses w =
     List.map_filter (\<lambda>i. map_option (Pair i) (businessModel w i)) (businessIds w)"

text \<open>
  \<^verbatim>\<open>product.save()\<close> on a loaded document whose \<^verbatim>\<open>quantity\<close> was assigned: the store
  sets that one path on the stored document, and the save fails when the document is
  no longer there.
\<close>

definition save_product :: "objectId \<Rightarrow> product \<Rightarrow> world \<Rightarrow> error option \<times> world" where
  "save_product pid p w =
     (case productModel w pid of
        None \<Rightarrow> (Some DocumentNotFound, w)
      | Some stored \<Rightarrow>
          (None, w\<lparr>productModel := (productModel w)(pid \<mapsto> stored\<lparr>quantity := quantity p\<rparr>)\<rparr>))"

text \<open>
  \<^verbatim>\<open>new productModel({name, description, price, quantity, businessId}).save()\<close>: the
  required \<^verbatim>\<open>name\<close> must not be empty, \<^verbatim>\<open>createdAt\<close> defaults to the time of construction.
\<close>

definition save_new_product ::
  "objectId \<Rightarrow> product_body \<Rightarrow> world \<Rightarrow> (error + product) \<times> world" where
  "save_new_product pid b w =
     (if pb_name b = [] then (Inl (ValidationFailed ''name''), w)
      else if productModel w pid \<noteq> None then (Inl (DuplicateKey ''_id''), w)
      else
        (let doc = \<lparr>name = pb_name b, description = pb_description b, price = pb_price b,
                    quantity = pb_quantity b, businessId = pb_businessId b,
                    createdAt = clock w\<rparr>
         in (Inr doc, w\<lparr>productModel := (productModel w)(pid \<mapsto> doc),
                         productIds := productIds w @ [pid]\<rparr>)))"

text \<open>
  \<^verbatim>\<open>findByIdAndUpdate(id, req.body, { new: true })\<close> and \<^verbatim>\<open>findByIdAndDelete(id)\<close> on
  products.
\<close>

definition apply_update :: "product_update \<Rightarrow> product \<Rightarrow> product" where
  "apply_update u p =
     p\<lparr>name := (case set_name u of None \<Rightarrow> name p | Some v \<Rightarrow> v),
       description := (case set_description u of None \<Rightarrow> description p | Some v \<Rightarrow> v),
       price := (case set_price u of None \<Rightarrow> price p | Some v \<Rightarrow> v),
       quantity := (case set_quantity u of None \<Rightarrow> quantity p | Some v \<Rightarrow> v),
       businessId := (case set_businessId u of None \<Rightarrow> businessId p | Some v \<Rightarrow> v)\<rparr>"

definition update_product :: "objectId \<Rightarrow> product_update \<Rightarrow> world \<Rightarrow> product option \<times> world" where
  "update_product pid upd w =
     (case productModel w pid of
        None \<Rightarrow> (None, w)
      | Some p \<Rightarrow>
          (Some (apply_update upd p),
           w\<lparr>productModel := (productModel w)(pid \<mapsto> apply_update upd p)\<rparr>))"

definition delete_product :: "objectId \<Rightarrow> world \<Rightarrow> product option \<times> world" where
  "delete_product pid w =
     (productModel w pid,
      w\<lparr>productModel := (productModel w)(pid := None),
        productIds := removeAll pid (productIds w)\<rparr>)"

text \<open>\<^verbatim>\<open>userModel.findOne({ email })\<close>\<close>

definition find_user_by_email :: "world \<Rightarrow> string \<Rightarrow> (objectId \<times> user) option" where
  "find_user_by_email w e = find (\<lambda>(i, u). user_email u = e) (all_users w)"

text \<open>The values of the \<^verbatim>\<open>enum\<close> of \<^verbatim>\<open>role\<close> in \<^verbatim>\<open>userSchema\<close>.\<close>

definition role_of :: "string \<Rightarrow> role option" where
  "role_of s =
     (if s = ''admin'' then Some Admin
      else if s = ''manager'' then Some Manager
      else if s = ''employee'' then Some Employee
      else if s = ''customer'' then Some Customer
      else None)"

text \<open>
  \<^verbatim>\<open>new userModel({name, email, password, role, businessId}).save()\<close>: the role is
  validated against the \<^verbatim>\<open>enum\<close>, and the unique index on \<^verbatim>\<open>email\<close> refuses a second user
  with the same address.
\<close>

definition save_new_user :: "objectId \<Rightarrow> signup_body \<Rightarrow> world \<Rightarrow> error option \<times> world" where
  "save_new_user uid b w =
     (case role_of (sb_role b) of
        None \<Rightarrow> (Some (ValidationFailed ''role''), w)
      | Some r \<Rightarrow>
          if userModel w uid \<noteq> None then (Some (DuplicateKey ''_id''), w)
          else if find_user_by_email w (sb_email b) \<noteq> None then (Some (DuplicateKey ''email''), w)
          else
            (None,
             w\<lparr>userModel := (userModel w)(uid \<mapsto>
                  \<lparr>user_name = sb_name b, user_email = sb_email b, password = sb_password b,
                   user_role = r, user_businessId = Some (sb_businessId b)\<rparr>),
               userIds := userIds w @ [uid]\<rparr>))"

definition view_user :: "objectId \<times> user \<Rightarrow> user_view" where
  "view_user iu =
     \<lparr>uv_id = fst iu, uv_name = user_name (snd iu), uv_email = user_email (snd iu),
      uv_role = user_role (snd iu), uv_businessId = user_businessId (snd iu)\<rparr>"

text \<open>
  \<^verbatim>\<open>new businessModel({name, address, phone, email, owner}).save()\<close>: \<^verbatim>\<open>name\<close> and \<^verbatim>\<open>owner\<close>
  are required, \<^verbatim>\<open>createdAt\<close> defaults to the time of construction, and the unique index
  on \<^verbatim>\<open>email\<close> refuses a second business with the same address (an absent address is
  indexed as \<^verbatim>\<open>null\<close>, like any other value).
\<close>

definition save_new_business ::
  "objectId \<Rightarrow> business_body \<Rightarrow> objectId option \<Rightarrow> world \<Rightarrow> (error + business_doc) \<times> world"
  where
  "save_new_business bid b own w =
     (case bb_name b of
        None \<Rightarrow> (Inl (ValidationFailed ''name''), w)
      | Some n \<Rightarrow>
          if n = [] then (Inl (ValidationFailed ''name''), w)
          else
            (case own of
               None \<Rightarrow> (Inl (ValidationFailed ''owner''), w)
             | Some ownerId \<Rightarrow>
                 if businessModel w bid \<noteq> None then (Inl (DuplicateKey ''_id''), w)
                 else if list_ex (\<lambda>(i, d). business_email d = bb_email b) (all_businesses w)
                 then (Inl (DuplicateKey ''email''), w)
                 else
                   (let doc = \<lparr>business_name = n, address = bb_address b, phone = bb_phone b,
                               business_email = bb_email b, business_createdAt = clock w,
                               owner = ownerId\<rparr>
                    in (Inr doc, w\<lparr>businessModel := (businessModel w)(bid \<mapsto> doc),
                                    businessIds := businessIds w @ [bid]\<rparr>))))"

text \<open>
  \<^verbatim>\<open>findByIdAndUpdate(id, req.body, { new: true })\<close> on businesses: the paths of the body
  are set without validation; the unique index on \<^verbatim>\<open>email\<close> refuses an address that
  another business has.
\<close>

definition apply_business_update :: "business_body \<Rightarrow> business_doc \<Rightarrow> business_doc" where
  "apply_business_update b d =
     d\<lparr>business_name := (case bb_name b of None \<Rightarrow> business_name d | Some v \<Rightarrow> v),
       address := (case bb_address b of None \<Rightarrow> address d | Some v \<Rightarrow> Some v),
       phone := (case bb_phone b of None \<Rightarrow> phone d | Some v \<Rightarrow> Some v),
       business_email := (case bb_email b of None \<Rightarrow> business_email d | Some v \<Rightarrow> Some v)\<rparr>"

definition update_business ::
  "objectId \<Rightarrow> business_body \<Rightarrow> world \<Rightarrow> (error + business_doc option) \<times> world" where
  "update_business bid b w =
     (case businessModel w bid of
        None \<Rightarrow> (Inr None, w)
      | Some d \<Rightarrow>
          if bb_email b \<noteq> None
             \<and> list_ex (\<lambda>(i, other). i \<noteq> bid \<and> business_email other = bb_email b)
                 (all_businesses w)
          then (Inl (DuplicateKey ''email''), w)
          else (Inr (Some (apply_business_update b d)),
                w\<lparr>businessModel := (businessModel w)(bid \<mapsto> apply_business_update b d)\<rparr>))"

definition delete_business :: "objectId \<Rightarrow> world \<Rightarrow> business_doc option \<times> world" where
  "delete_business bid w =
     (businessModel w bid,
      w\<lparr>businessModel := (businessModel w)(bid := None),
        businessIds := removeAll bid (businessIds w)\<rparr>)"

definition populate_business :: "world \<Rightarrow> objectId \<times> business_doc \<Rightarrow> populated_business" where
  "populate_business w ib =
     \<lparr>bv_id = fst ib, bv_name = business_name (snd ib), bv_address = address (snd ib),
      bv_phone = phone (snd ib), bv_email = business_email (snd ib),
      bv_createdAt = business_createdAt (snd ib),
      bv_owner =
        map_option (\<lambda>u. \<lparr>cr_id = owner (snd ib), cr_name = user_name u, cr_email = user_email u\<rparr>)
          (userModel w (owner (snd ib)))\<rparr>"

text \<open>
  The \<^verbatim>\<open>pre('validate')\<close> hook of \<^verbatim>\<open>invoiceSchema\<close>: an absent or empty
  \<^verbatim>\<open>invoiceNumber\<close> becomes \<^verbatim>\<open>`INV-${Date.now()}`\<close>.
\<close>

definition pre_validate :: "int \<Rightarrow> string option \<Rightarrow> string" where
  "pre_validate timestamp number =
     (case number of
        None \<Rightarrow> ''INV-'' @ show_int timestamp
      | Some s \<Rightarrow> if s = [] then ''INV-'' @ show_int timestamp else s)"

text \<open>
  \<^verbatim>\<open>invoice.save()\<close> on a new document: the hook runs, the required paths are
  validated (\<^verbatim>\<open>business\<close> is the one a request can leave out), and the insert is refused
  when the \<^verbatim>\<open>_id\<close> or the unique \<^verbatim>\<open>invoiceNumber\<close> is already in the collection. The
  document is constructed right before it is saved, so its default \<^verbatim>\<open>purchaseDate\<close> is
  taken from the same reading of the clock.
\<close>

definition save_invoice :: "invoice_draft \<Rightarrow> world \<Rightarrow> (error + invoice) \<times> world" where
  "save_invoice d w =
     (let number = pre_validate (clock w) (d_invoiceNumber d) in
      case d_business d of
        None \<Rightarrow> (Inl (ValidationFailed ''business''), w)
      | Some b \<Rightarrow>
          if d_id d \<in> set (map invoice_id (invoiceModel w)) then (Inl (DuplicateKey ''_id''), w)
          else if number \<in> set (map invoiceNumber (invoiceModel w))
          then (Inl (DuplicateKey ''invoiceNumber''), w)
          else
            (let doc = \<lparr>invoice_id = d_id d, customer = d_customer d, business = b,
                        products = d_products d, totalAmount = d_totalAmount d,
                        purchaseDate = clock w, invoiceNumber = number\<rparr>
             in (Inr doc, w\<lparr>invoiceModel := invoiceModel w @ [doc]\<rparr>)))"

definition populate_line :: "world \<Rightarrow> line \<Rightarrow> populated_line" where
  "populate_line w l =
     \<lparr>pl_product =
        map_option (\<lambda>p. \<lparr>nr_id = line_product l, nr_name = name p\<rparr>)
          (productModel w (line_product l)),
      pl_quantity = line_quantity l,
      pl_pricePerUnit = pricePerUnit l,
      pl_totalPrice = totalPrice l\<rparr>"

definition populate :: "world \<Rightarrow> invoice \<Rightarrow> populated_invoice" where
  "populate w ivc =
     \<lparr>pi_id = invoice_id ivc,
      pi_customer =
        map_option (\<lambda>u. \<lparr>cr_id = customer ivc, cr_name = user_name u, cr_email = user_email u\<rparr>)
          (userModel w (customer ivc)),
      pi_business =
        map_option (\<lambda>b. \<lparr>nr_id = business ivc, nr_name = business_name b\<rparr>)
          (businessModel w (business ivc)),
      pi_products = map (populate_line w) (products ivc),
      pi_totalAmount = totalAmount ivc,
      pi_purchaseDate = purchaseDate ivc,
      pi_invoiceNumber = invoiceNumber ivc\<rparr>"

definition find_invoice :: "world \<Rightarrow> objectId \<Rightarrow> invoice option" where
  "find_invoice w i = find (\<lambda>d. invoice_id d = i) (invoiceModel w)"

subsection \<open>Responses and handlers\<close>

datatype payload =
    Message string
  | Failed string error
  | LoggedIn string objectId role
  | UserDocs "user_view list"
  | BusinessRegistered objectId business_doc
  | BusinessDoc populated_business
  | BusinessDocs "populated_business list"
  | BusinessUpdated objectId business_doc
  | ProductDoc objectId product
  | ProductDocs "(objectId \<times> product) list"
  | ProductCreated objectId product
  | Updated objectId product
  | Purchased number
  | Created invoice
  | InvoiceDoc populated_invoice
  | InvoiceDocs "populated_invoice list"

datatype response = Json nat payload

fun status :: "response \<Rightarrow> nat" where
  "status (Json s b) = s"

datatype prog =
    Respond response
  | FindUserByEmail string "(objectId \<times> user) option \<Rightarrow> prog"
  | SaveNewUser objectId signup_body "error option \<Rightarrow> prog"
  | FindUsers "user_view list \<Rightarrow> prog"
  | SaveNewBusiness objectId business_body "objectId option" "error + business_doc \<Rightarrow> prog"
  | FindBusinesses "populated_business list \<Rightarrow> prog"
  | FindBusiness objectId "populated_business option \<Rightarrow> prog"
  | FindBusinessAndUpdate objectId business_body "error + business_doc option \<Rightarrow> prog"
  | FindBusinessAndDelete objectId "business_doc option \<Rightarrow> prog"
  | FindProducts "(objectId \<times> product) list \<Rightarrow> prog"
  | FindProduct objectId "product option \<Rightarrow> prog"
  | SaveNewProduct objectId product_body "error + product \<Rightarrow> prog"
  | SaveProduct objectId product "error option \<Rightarrow> prog"
  | FindProductAndUpdate objectId product_update "product option \<Rightarrow> prog"
  | FindProductAndDelete objectId "product option \<Rightarrow> prog"
  | SaveInvoice invoice_draft "error + invoice \<Rightarrow> prog"
  | FindInvoice objectId "populated_invoice option \<Rightarrow> prog"
  | FindInvoices "populated_invoice list \<Rightarrow> prog"

text \<open>\<^verbatim>\<open>app.get('/test')\<close>\<close>

definition test :: prog where
  "test = Respond (Json 200 (Message ''Test endpoint is working!''))"

text \<open>\<^verbatim>\<open>userRouter.post('/signup')\<close>, \<^verbatim>\<open>userRouter.post('/login')\<close> and \<^verbatim>\<open>userRouter.get('/')\<close>\<close>

definition signup :: "signup_body \<Rightarrow> string \<Rightarrow> objectId \<Rightarrow> prog" where
  "signup b hashedPassword uid =
     FindUserByEmail (sb_email b) (\<lambda>existingUser.
       case existingUser of
         Some found \<Rightarrow> Respond (Json 400 (Message ''User already exists''))
       | None \<Rightarrow>
           SaveNewUser uid (b\<lparr>sb_password := hashedPassword\<rparr>) (\<lambda>err.
             case err of
               Some e \<Rightarrow> Respond (Json 500 (Failed ''Signup failed'' e))
             | None \<Rightarrow> Respond (Json 201 (Message ''User created successfully''))))"

definition login ::
  "login_body \<Rightarrow> (string \<Rightarrow> string \<Rightarrow> bool) \<Rightarrow> (objectId \<Rightarrow> role \<Rightarrow> string) \<Rightarrow> prog" where
  "login b compare sign =
     (case lb_email b of
        None \<Rightarrow> Respond (Json 400 (Message ''Email and password are required''))
      | Some email \<Rightarrow>
          (case lb_password b of
             None \<Rightarrow> Respond (Json 400 (Message ''Email and password are required''))
           | Some pw \<Rightarrow>
               if email = [] \<or> pw = []
               then Respond (Json 400 (Message ''Email and password are required''))
               else
                 FindUserByEmail email (\<lambda>found.
                   case found of
                     None \<Rightarrow> Respond (Json 400 (Message ''Invalid credentials''))
                   | Some (uid, u) \<Rightarrow>
                       if password u = [] then Respond (Json 400 (Message ''Invalid credentials''))
                       else if \<not> compare pw (password u)
                       then Respond (Json 400 (Message ''Invalid credentials''))
                       else Respond (Json 200
                              (LoggedIn (sign uid (user_role u)) uid (user_role u))))))"

definition getUsers :: prog where
  "getUsers = FindUsers (\<lambda>users. Respond (Json 200 (UserDocs users)))"

text \<open>The handlers of \<^verbatim>\<open>businessRouter\<close>: \<^verbatim>\<open>post('/')\<close>, \<^verbatim>\<open>get('/')\<close>, \<^verbatim>\<open>get('/:id')\<close>,
  \<^verbatim>\<open>put('/:id')\<close> and \<^verbatim>\<open>delete('/:id')\<close>.\<close>

definition registerBusiness :: "req_user \<Rightarrow> objectId \<Rightarrow> business_body \<Rightarrow> prog" where
  "registerBusiness u bid b =
     SaveNewBusiness bid b (user_id u) (\<lambda>saved.
       case saved of
         Inl e \<Rightarrow> Respond (Json 500 (Failed ''Business registration failed'' e))
       | Inr doc \<Rightarrow> Respond (Json 201 (BusinessRegistered bid doc)))"

definition getBusinesses :: prog where
  "getBusinesses = FindBusinesses (\<lambda>businesses. Respond (Json 200 (BusinessDocs businesses)))"

definition getBusiness :: "objectId \<Rightarrow> prog" where
  "getBusiness bid =
     FindBusiness bid (\<lambda>found.
       case found of
         None \<Rightarrow> Respond (Json 404 (Message ''Business not found''))
       | Some doc \<Rightarrow> Respond (Json 200 (BusinessDoc doc)))"

definition updateBusiness :: "objectId \<Rightarrow> business_body \<Rightarrow> prog" where
  "updateBusiness bid b =
     FindBusinessAndUpdate bid b (\<lambda>updated.
       case updated of
         Inl e \<Rightarrow> Respond (Json 500 (Failed ''Update failed'' e))
       | Inr None \<Rightarrow> Respond (Json 404 (Message ''Business not found''))
       | Inr (Some doc) \<Rightarrow> Respond (Json 200 (BusinessUpdated bid doc)))"

definition deleteBusiness :: "objectId \<Rightarrow> prog" where
  "deleteBusiness bid =
     FindBusinessAndDelete bid (\<lambda>deleted.
       case deleted of
         None \<Rightarrow> Respond (Json 404 (Message ''Business not found''))
       | Some doc \<Rightarrow> Respond (Json 200 (Message ''Business deleted'')))"

text \<open>\<^verbatim>\<open>productRouter.get('/')\<close>, \<^verbatim>\<open>productRouter.get('/:id')\<close> and \<^verbatim>\<open>productRouter.post('/')\<close>\<close>

definition getProducts :: prog where
  "getProducts = FindProducts (\<lambda>found. Respond (Json 200 (ProductDocs found)))"

definition getProduct :: "objectId \<Rightarrow> prog" where
  "getProduct pid =
     FindProduct pid (\<lambda>found.
       case found of
         None \<Rightarrow> Respond (Json 404 (Message ''Product not found''))
       | Some p \<Rightarrow> Respond (Json 200 (ProductDoc pid p)))"

definition createProduct :: "objectId \<Rightarrow> product_body \<Rightarrow> prog" where
  "createProduct pid b =
     SaveNewProduct pid b (\<lambda>saved.
       case saved of
         Inl e \<Rightarrow> Respond (Json 500 (Failed ''Creation failed'' e))
       | Inr p \<Rightarrow> Respond (Json 201 (ProductCreated pid p)))"

text \<open>\<^verbatim>\<open>productRouter.put('/:id')\<close> and \<^verbatim>\<open>productRouter.delete('/:id')\<close>\<close>

definition updateProduct :: "objectId \<Rightarrow> product_update \<Rightarrow> prog" where
  "updateProduct pid upd =
     FindProductAndUpdate pid upd (\<lambda>updated.
       case updated of
         None \<Rightarrow> Respond (Json 404 (Message ''Product not found''))
       | Some p \<Rightarrow> Respond (Json 200 (Updated pid p)))"

definition deleteProduct :: "objectId \<Rightarrow> prog" where
  "deleteProduct pid =
     FindProductAndDelete pid (\<lambda>deleted.
       case deleted of
         None \<Rightarrow> Respond (Json 404 (Message ''Product not found''))
       | Some p \<Rightarrow> Respond (Json 200 (Message ''Product deleted'')))"

text \<open>\<^verbatim>\<open>productRouter.patch('/:id/quantity')\<close>\<close>

definition purchase :: "objectId \<Rightarrow> number option \<Rightarrow> prog" where
  "purchase pid decrementBy =
     (case decrementBy of
        None \<Rightarrow> Respond (Json 400 (Message ''decrementBy must be a positive number''))
      | Some d \<Rightarrow>
          if d \<le> 0 then Respond (Json 400 (Message ''decrementBy must be a positive number''))
          else
            FindProduct pid (\<lambda>found.
              case found of
                None \<Rightarrow> Respond (Json 404 (Message ''Product not found''))
              | Some p \<Rightarrow>
                  if quantity p = 0 then Respond (Json 400 (Message ''Product is out of stock''))
                  else if d > quantity p
                  then Respond (Json 400
                         (Message (''Only '' @ show_number (quantity p) @ '' item(s) in stock'')))
                  else
                    SaveProduct pid (p\<lparr>quantity := num_sub (quantity p) d\<rparr>) (\<lambda>err.
                      case err of
                        Some e \<Rightarrow> Respond (Json 500 (Failed ''Purchase failed'' e))
                      | None \<Rightarrow> Respond (Json 200 (Purchased (num_sub (quantity p) d))))))"

text \<open>
  The answer of \<^verbatim>\<open>invoiceRouter.post('/')\<close> to an item it cannot serve:
  \<^verbatim>\<open>res.status(400).json({ message: `Product unavailable or insufficient quantity: ${productId}` })\<close>.
\<close>

definition unavailable :: "objectId \<Rightarrow> response" where
  "unavailable productId =
     Json 400 (Message (''Product unavailable or insufficient quantity: '' @ productId))"

text \<open>
  The \<^verbatim>\<open>for (let item of products)\<close> loop of \<^verbatim>\<open>invoiceRouter.post('/')\<close>, with
  \<^verbatim>\<open>totalPrice = product.price * quantity\<close>, \<^verbatim>\<open>totalAmount += totalPrice\<close> and
  \<^verbatim>\<open>product.quantity -= quantity\<close>.
\<close>

fun invoice_loop ::
  "item list \<Rightarrow> line list \<Rightarrow> number \<Rightarrow> (line list \<Rightarrow> number \<Rightarrow> prog) \<Rightarrow> prog" where
  "invoice_loop [] invoiceProducts amount k = k invoiceProducts amount"
| "invoice_loop (it # rest) invoiceProducts amount k =
     FindProduct (item_product it) (\<lambda>found.
       case found of
         None \<Rightarrow>
           Respond (unavailable (item_product it))
       | Some p \<Rightarrow>
           if quantity p < item_quantity it
           then Respond (unavailable (item_product it))
           else
             SaveProduct (item_product it)
               (p\<lparr>quantity := num_sub (quantity p) (item_quantity it)\<rparr>) (\<lambda>err.
               case err of
                 Some e \<Rightarrow> Respond (Json 500 (Failed ''Invoice creation failed'' e))
               | None \<Rightarrow>
                   invoice_loop rest
                     (invoiceProducts @
                        [\<lparr>line_product = item_product it, line_quantity = item_quantity it,
                          pricePerUnit = price p,
                          totalPrice = num_mul (price p) (item_quantity it)\<rparr>])
                     (num_add amount (num_mul (price p) (item_quantity it))) k))"

text \<open>
  \<^verbatim>\<open>invoiceRouter.post('/')\<close>. \<open>oid\<close> is the \<^verbatim>\<open>_id\<close> that \<^verbatim>\<open>new invoiceModel(...)\<close>
  generates.
\<close>

definition save_new_invoice ::
  "req_user \<Rightarrow> objectId \<Rightarrow> invoice_body \<Rightarrow> line list \<Rightarrow> number \<Rightarrow> prog" where
  "save_new_invoice u oid b invoiceProducts amount =
     SaveInvoice
       \<lparr>d_id = oid, d_customer = userId u, d_business = body_business b,
        d_products = invoiceProducts, d_totalAmount = amount, d_invoiceNumber = None\<rparr>
       (\<lambda>saved.
          case saved of
            Inl e \<Rightarrow> Respond (Json 500 (Failed ''Invoice creation failed'' e))
          | Inr ivc \<Rightarrow> Respond (Json 201 (Created ivc)))"

definition createInvoice :: "req_user \<Rightarrow> objectId \<Rightarrow> invoice_body \<Rightarrow> prog" where
  "createInvoice u oid b =
     (case body_products b of
        None \<Rightarrow> Respond (Json 400 (Message ''Products list is required''))
      | Some items \<Rightarrow>
          if items = [] then Respond (Json 400 (Message ''Products list is required''))
          else invoice_loop items [] 0 (save_new_invoice u oid b))"

text \<open>\<^verbatim>\<open>invoiceRouter.get('/')\<close>\<close>

definition getInvoices :: prog where
  "getInvoices = FindInvoices (\<lambda>invoices. Respond (Json 200 (InvoiceDocs invoices)))"

text \<open>
  \<^verbatim>\<open>invoiceRouter.get('/:id')\<close>. The test \<^verbatim>\<open>req.user.role === 'customer' && ...\<close> reads
  \<^verbatim>\<open>invoice.customer._id\<close> only for a customer; on a \<^verbatim>\<open>null\<close> customer that read throws.
\<close>

definition getInvoice :: "req_user \<Rightarrow> objectId \<Rightarrow> prog" where
  "getInvoice u i =
     FindInvoice i (\<lambda>found.
       case found of
         None \<Rightarrow> Respond (Json 404 (Message ''Invoice not found''))
       | Some ivc \<Rightarrow>
           if role u = Customer
           then (case pi_customer ivc of
                   None \<Rightarrow> Respond (Json 500 (Failed ''Fetching invoice failed'' TypeError))
                 | Some c \<Rightarrow>
                     if cr_id c \<noteq> userId u
                     then Respond (Json 403 (Message ''Unauthorized access''))
                     else Respond (Json 200 (InvoiceDoc ivc)))
           else Respond (Json 200 (InvoiceDoc ivc)))"

subsection \<open>Running handlers\<close>

text \<open>
  One store operation: the answer handed to the continuation, and the store after it.
  A handler that has responded has none left.
\<close>

fun step :: "prog \<Rightarrow> world \<Rightarrow> prog \<times> world" where
  "step (Respond r) w = (Respond r, w)"
| "step (FindUserByEmail e k) w = (k (find_user_by_email w e), w)"
| "step (SaveNewUser uid b k) w = (k (fst (save_new_user uid b w)), snd (save_new_user uid b w))"
| "step (FindUsers k) w = (k (map view_user (all_users w)), w)"
| "step (SaveNewBusiness bid b own k) w =
     (k (fst (save_new_business bid b own w)), snd (save_new_business bid b own w))"
| "step (FindBusinesses k) w = (k (map (populate_business w) (all_businesses w)), w)"
| "step (FindBusiness bid k) w =
     (k (map_option (\<lambda>d. populate_business w (bid, d)) (businessModel w bid)), w)"
| "step (FindBusinessAndUpdate bid b k) w =
     (k (fst (update_business bid b w)), snd (update_business bid b w))"
| "step (FindBusinessAndDelete bid k) w =
     (k (fst (delete_business bid w)), snd (delete_business bid w))"
| "step (FindProducts k) w = (k (all_products w), w)"
| "step (FindProduct pid k) w = (k (productModel w pid), w)"
| "step (SaveNewProduct pid b k) w =
     (k (fst (save_new_product pid b w)), snd (save_new_product pid b w))"
| "step (SaveProduct pid p k) w = (k (fst (save_product pid p w)), snd (save_product pid p w))"
| "step (FindProductAndUpdate pid upd k) w =
     (k (fst (update_product pid upd w)), snd (update_product pid upd w))"
| "step (FindProductAndDelete pid k) w =
     (k (fst (delete_product pid w)), snd (delete_product pid w))"
| "step (SaveInvoice d k) w = (k (fst (save_invoice d w)), snd (save_invoice d w))"
| "step (FindInvoice i k) w = (k (map_option (populate w) (find_invoice w i)), w)"
| "step (FindInvoices k) w = (k (map (populate w) (invoiceModel w)), w)"

text \<open>A handler run to its response with no other request in between.\<close>

primrec exec :: "prog \<Rightarrow> world \<Rightarrow> response \<times> world" where
  "exec (Respond r) w = (r, w)"
| "exec (FindUserByEmail e k) w = exec (k (find_user_by_email w e)) w"
| "exec (SaveNewUser uid b k) w =
     exec (k (fst (save_new_user uid b w))) (snd (save_new_user uid b w))"
| "exec (FindUsers k) w = exec (k (map view_user (all_users w))) w"
| "exec (SaveNewBusiness bid b own k) w =
     exec (k (fst (save_new_business bid b own w))) (snd (save_new_business bid b own w))"
| "exec (FindBusinesses k) w = exec (k (map (populate_business w) (all_businesses w))) w"
| "exec (FindBusiness bid k) w =
     exec (k (map_option (\<lambda>d. populate_business w (bid, d)) (businessModel w bid))) w"
| "exec (FindBusinessAndUpdate bid b k) w =
     exec (k (fst (update_business bid b w))) (snd (update_business bid b w))"
| "exec (FindBusinessAndDelete bid k) w =
     exec (k (fst (delete_business bid w))) (snd (delete_business bid w))"
| "exec (FindProducts k) w = exec (k (all_products w)) w"
| "exec (FindProduct pid k) w = exec (k (productModel w pid)) w"
| "exec (SaveNewProduct pid b k) w =
     exec (k (fst (save_new_product pid b w))) (snd (save_new_product pid b w))"
| "exec (SaveProduct pid p k) w =
     exec (k (fst (save_product pid p w))) (snd (save_product pid p w))"
| "exec (FindProductAndUpdate pid upd k) w =
     exec (k (fst (update_product pid upd w))) (snd (update_product pid upd w))"
| "exec (FindProductAndDelete pid k) w =
     exec (k (fst (delete_product pid w))) (snd (delete_product pid w))"
| "exec (SaveInvoice d k) w =
     exec (k (fst (save_invoice d w))) (snd (save_invoice d w))"
| "exec (FindInvoice i k) w = exec (k (map_option (populate w) (find_invoice w i))) w"
| "exec (FindInvoices k) w = exec (k (map (populate w) (invoiceModel w))) w"

text \<open>
  Handlers in flight together: the schedule names, step by step, the handler whose next
  store operation runs. A handler that has responded no longer moves.
\<close>

fun run_sched :: "nat list \<Rightarrow> prog list \<Rightarrow> world \<Rightarrow> prog list \<times> world" where
  "run_sched [] ps w = (ps, w)"
| "run_sched (i # sched) ps w =
     (if i < length ps
      then (case step (ps ! i) w of (p', w') \<Rightarrow> run_sched sched (ps[i := p']) w')
      else run_sched sched ps w)"

text \<open>
  One handler under interference: before each of its store operations the other
  requests have changed the store by the next function of \<open>envs\<close> (by nothing once the
  list is used up). The run also returns, in order, what each \<^verbatim>\<open>findById\<close> on a product
  answered.
\<close>

definition interfere :: "(world \<Rightarrow> world) list \<Rightarrow> world \<Rightarrow> world" where
  "interfere envs w = (case envs of [] \<Rightarrow> w | e # _ \<Rightarrow> e w)"

primrec exec_env ::
  "prog \<Rightarrow> (world \<Rightarrow> world) list \<Rightarrow> world \<Rightarrow> response \<times> world \<times> (objectId \<times> product option) list"
  where
  "exec_env (Respond r) envs w = (r, w, [])"
| "exec_env (FindUserByEmail e k) envs w =
     (let w1 = interfere envs w in exec_env (k (find_user_by_email w1 e)) (tl envs) w1)"
| "exec_env (SaveNewUser uid b k) envs w =
     (let w1 = interfere envs w
      in exec_env (k (fst (save_new_user uid b w1))) (tl envs) (snd (save_new_user uid b w1)))"
| "exec_env (FindUsers k) envs w =
     (let w1 = interfere envs w in exec_env (k (map view_user (all_users w1))) (tl envs) w1)"
| "exec_env (SaveNewBusiness bid b own k) envs w =
     (let w1 = interfere envs w
      in exec_env (k (fst (save_new_business bid b own w1))) (tl envs)
           (snd (save_new_business bid b own w1)))"
| "exec_env (FindBusinesses k) envs w =
     (let w1 = interfere envs w
      in exec_env (k (map (populate_business w1) (all_businesses w1))) (tl envs) w1)"
| "exec_env (FindBusiness bid k) envs w =
     (let w1 = interfere envs w
      in exec_env (k (map_option (\<lambda>d. populate_business w1 (bid, d)) (businessModel w1 bid)))
           (tl envs) w1)"
| "exec_env (FindBusinessAndUpdate bid b k) envs w =
     (let w1 = interfere envs w
      in exec_env (k (fst (update_business bid b w1))) (tl envs) (snd (update_business bid b w1)))"
| "exec_env (FindBusinessAndDelete bid k) envs w =
     (let w1 = interfere envs w
      in exec_env (k (fst (delete_business bid w1))) (tl envs) (snd (delete_business bid w1)))"
| "exec_env (FindProducts k) envs w =
     (let w1 = interfere envs w in exec_env (k (all_products w1)) (tl envs) w1)"
| "exec_env (FindProduct pid k) envs w =
     (let w1 = interfere envs w;
          (r, w2, reads) = exec_env (k (productModel w1 pid)) (tl envs) w1
      in (r, w2, (pid, productModel w1 pid) # reads))"
| "exec_env (SaveNewProduct pid b k) envs w =
     (let w1 = interfere envs w
      in exec_env (k (fst (save_new_product pid b w1))) (tl envs)
           (snd (save_new_product pid b w1)))"
| "exec_env (SaveProduct pid p k) envs w =
     (let w1 = interfere envs w
      in exec_env (k (fst (save_product pid p w1))) (tl envs) (snd (save_product pid p w1)))"
| "exec_env (FindProductAndUpdate pid upd k) envs w =
     (let w1 = interfere envs w
      in exec_env (k (fst (update_product pid upd w1))) (tl envs)
           (snd (update_product pid upd w1)))"
| "exec_env (FindProductAndDelete pid k) envs w =
     (let w1 = interfere envs w
      in exec_env (k (fst (delete_product pid w1))) (tl envs) (snd (delete_product pid w1)))"
| "exec_env (SaveInvoice d k) envs w =
     (let w1 = interfere envs w
      in exec_env (k (fst (save_invoice d w1))) (tl envs) (snd (save_invoice d w1)))"
| "exec_env (FindInvoice i k) envs w =
     (let w1 = interfere envs w
      in exec_env (k (map_option (populate w1) (find_invoice w1 i))) (tl envs) w1)"
| "exec_env (FindInvoices k) envs w =
     (let w1 = interfere envs w
      in exec_env (k (map (populate w1) (invoiceModel w1))) (tl envs) w1)"

subsection \<open>Sequences of requests\<close>

text \<open>The routes of the application, each with what its handler reads of the request.\<close>

datatype request =
    GET_test
  | POST_signup signup_body string objectId
  | POST_login login_body "string \<Rightarrow> string \<Rightarrow> bool" "objectId \<Rightarrow> role \<Rightarrow> string"
  | GET_users
  | POST_business req_user objectId business_body
  | GET_businesses
  | GET_business objectId
  | PUT_business objectId business_body
  | DELETE_business objectId
  | GET_products
  | GET_product objectId
  | POST_product objectId product_body
  | PUT_product objectId product_update
  | DELETE_product objectId
  | PATCH_quantity objectId "number option"
  | POST_invoice req_user objectId invoice_body
  | GET_invoices
  | GET_invoice req_user objectId

fun handler :: "request \<Rightarrow> prog" where
  "handler GET_test = test"
| "handler (POST_signup b hashedPassword uid) = signup b hashedPassword uid"
| "handler (POST_login b compare sign) = login b compare sign"
| "handler GET_users = getUsers"
| "handler (POST_business u bid b) = registerBusiness u bid b"
| "handler GET_businesses = getBusinesses"
| "handler (GET_business bid) = getBusiness bid"
| "handler (PUT_business bid b) = updateBusiness bid b"
| "handler (DELETE_business bid) = deleteBusiness bid"
| "handler GET_products = getProducts"
| "handler (GET_product pid) = getProduct pid"
| "handler (POST_product pid b) = createProduct pid b"
| "handler (PUT_product pid upd) = updateProduct pid upd"
| "handler (DELETE_product pid) = deleteProduct pid"
| "handler (PATCH_quantity pid decrementBy) = purchase pid decrementBy"
| "handler (POST_invoice u oid b) = createInvoice u oid b"
| "handler GET_invoices = getInvoices"
| "handler (GET_invoice u i) = getInvoice u i"

text \<open>
  Requests handled one after the other; each comes with the milliseconds that have
  passed since the one before.
\<close>

fun serve :: "(nat \<times> request) list \<Rightarrow> world \<Rightarrow> response list \<times> world" where
  "serve [] w = ([], w)"
| "serve ((ms, r) # rs) w =
     (let (resp, w1) = exec (handler r) (w\<lparr>clock := clock w + int ms\<rparr>);
          (resps, w2) = serve rs w1
      in (resp # resps, w2))"

subsection \<open>Notions the properties are stated with\<close>

definition quantityOnHand :: "world \<Rightarrow> objectId \<Rightarrow> number option" where
  "quantityOnHand w pid = map_option quantity (productModel w pid)"

text \<open>The stock of a product is not negative (a product that does not exist has none).\<close>

definition nonneg_stock :: "world \<Rightarrow> objectId \<Rightarrow> bool" where
  "nonneg_stock w pid = (case productModel w pid of None \<Rightarrow> True | Some p \<Rightarrow> 0 \<le> quantity p)"

text \<open>An item passes the guard of the invoice loop: its product exists and has the quantity.\<close>

definition in_stock :: "world \<Rightarrow> item \<Rightarrow> bool" where
  "in_stock w it =
     (case productModel w (item_product it) of
        None \<Rightarrow> False
      | Some p \<Rightarrow> \<not> quantity p < item_quantity it)"

text \<open>The store after the decrement for one item has been applied.\<close>

definition reserve_item :: "item \<Rightarrow> world \<Rightarrow> world" where
  "reserve_item it w =
     (case productModel w (item_product it) of
        None \<Rightarrow> w
      | Some p \<Rightarrow>
          w\<lparr>productModel :=
              (productModel w)(item_product it \<mapsto>
                 p\<lparr>quantity := num_sub (quantity p) (item_quantity it)\<rparr>)\<rparr>)"

text \<open>Every item of the list passes the guard when its turn comes.\<close>

fun reservable :: "item list \<Rightarrow> world \<Rightarrow> bool" where
  "reservable [] w = True"
| "reservable (it # its) w = (in_stock w it \<and> reservable its (reserve_item it w))"

text \<open>
  The items of an order whose decrement the loop applies: those before the first one
  that does not pass the guard.
\<close>

fun reserved_items :: "item list \<Rightarrow> world \<Rightarrow> item list" where
  "reserved_items [] w = []"
| "reserved_items (it # its) w =
     (if in_stock w it then it # reserved_items its (reserve_item it w) else [])"

text \<open>The requests of the purchase workflow: a product purchase and an invoice creation.\<close>

fun core_request :: "request \<Rightarrow> bool" where
  "core_request (PATCH_quantity pid decrementBy) = True"
| "core_request (POST_invoice u oid b) = True"
| "core_request r = False"

text \<open>
  What a request was granted of product \<open>pid\<close>, read off its response: the
  \<^verbatim>\<open>decrementBy\<close> of a purchase answered 200, the quantities on the lines of a created
  invoice.
\<close>

fun granted :: "objectId \<Rightarrow> request \<Rightarrow> response \<Rightarrow> number" where
  "granted pid (PATCH_quantity i (Some d)) (Json s b) = (if i = pid \<and> s = 200 then d else 0)"
| "granted pid (POST_invoice u oid body) (Json s (Created ivc)) =
     sum_list (map line_quantity (filter (\<lambda>l. line_product l = pid) (products ivc)))"
| "granted pid r resp = 0"

text \<open>The same for a handler in flight: nothing is granted before it has responded.\<close>

fun granted_now :: "objectId \<Rightarrow> request \<Rightarrow> prog \<Rightarrow> number" where
  "granted_now pid r (Respond resp) = granted pid r resp"
| "granted_now pid r p = 0"

text \<open>
  What a request handled on the store \<open>w\<close> reserves of product \<open>P\<close>: the \<^verbatim>\<open>decrementBy\<close>
  of a purchase that is answered 200, and the quantities of those items of an order
  whose decrement is applied, whether the order goes on to become an invoice or is
  refused at a later item.
\<close>

fun reserved :: "objectId \<Rightarrow> request \<Rightarrow> world \<Rightarrow> number" where
  "reserved P (PATCH_quantity pid decrementBy) w =
     (case decrementBy of
        None \<Rightarrow> 0
      | Some d \<Rightarrow> if pid = P \<and> status (fst (exec (purchase pid (Some d)) w)) = 200 then d else 0)"
| "reserved P (POST_invoice u oid body) w =
     (case body_products body of
        None \<Rightarrow> 0
      | Some items \<Rightarrow>
          sum_list (map item_quantity
            (filter (\<lambda>it. item_product it = P) (reserved_items items w))))"
| "reserved P r w = 0"

text \<open>The same for requests handled one after the other, as \<open>serve\<close> handles them.\<close>

fun total_reserved :: "objectId \<Rightarrow> (nat \<times> request) list \<Rightarrow> world \<Rightarrow> number" where
  "total_reserved P [] w = 0"
| "total_reserved P ((ms, r) # rs) w =
     reserved P r (w\<lparr>clock := clock w + int ms\<rparr>)
     + total_reserved P rs (snd (exec (handler r) (w\<lparr>clock := clock w + int ms\<rparr>)))"

text \<open>
  Every quantity the request asks for is a whole number, and no item of an order asks
  for a negative one.
\<close>

fun whole_quantities :: "request \<Rightarrow> bool" where
  "whole_quantities (PATCH_quantity pid decrementBy) =
     (case decrementBy of None \<Rightarrow> True | Some d \<Rightarrow> isInteger d)"
| "whole_quantities (POST_invoice u oid body) =
     (case body_products body of
        None \<Rightarrow> True
      | Some items \<Rightarrow> list_all (\<lambda>it. isInteger (item_quantity it) \<and> 0 \<le> item_quantity it) items)"
| "whole_quantities r = True"

text \<open>
  Every \<^verbatim>\<open>product.save()\<close> a handler can still reach, whatever the store answers, writes
  a quantity that is not negative, and the handler neither creates a product nor makes
  a \<^verbatim>\<open>findByIdAndUpdate\<close> on one (which write whatever quantity the request body holds).
\<close>

primrec harmless :: "prog \<Rightarrow> bool" where
  "harmless (Respond r) = True"
| "harmless (FindUserByEmail e k) = (\<forall>found. harmless (k found))"
| "harmless (SaveNewUser uid b k) = (\<forall>e. harmless (k e))"
| "harmless (FindUsers k) = (\<forall>found. harmless (k found))"
| "harmless (SaveNewBusiness bid b own k) = (\<forall>saved. harmless (k saved))"
| "harmless (FindBusinesses k) = (\<forall>found. harmless (k found))"
| "harmless (FindBusiness bid k) = (\<forall>found. harmless (k found))"
| "harmless (FindBusinessAndUpdate bid b k) = (\<forall>updated. harmless (k updated))"
| "harmless (FindBusinessAndDelete bid k) = (\<forall>deleted. harmless (k deleted))"
| "harmless (FindProducts k) = (\<forall>found. harmless (k found))"
| "harmless (FindProduct pid k) = (\<forall>found. harmless (k found))"
| "harmless (SaveNewProduct pid b k) = False"
| "harmless (SaveProduct pid p k) = (0 \<le> quantity p \<and> (\<forall>e. harmless (k e)))"
| "harmless (FindProductAndUpdate pid upd k) = False"
| "harmless (FindProductAndDelete pid k) = (\<forall>found. harmless (k found))"
| "harmless (SaveInvoice d k) = (\<forall>saved. harmless (k saved))"
| "harmless (FindInvoice i k) = (\<forall>found. harmless (k found))"
| "harmless (FindInvoices k) = (\<forall>found. harmless (k found))"

text \<open>
  Two stores that hold the same invoices, show the same time and have the same products
  at the same prices and in the same quantities. Users, businesses and the other fields
  of a product, its owning business among them, may differ.
\<close>

definition same_stock_and_invoices :: "world \<Rightarrow> world \<Rightarrow> bool" where
  "same_stock_and_invoices w1 w2 =
     (invoiceModel w1 = invoiceModel w2 \<and> clock w1 = clock w2
      \<and> (\<forall>pid. map_option (\<lambda>p. (price p, quantity p)) (productModel w1 pid) =
                map_option (\<lambda>p. (price p, quantity p)) (productModel w2 pid)))"


text \<open>
  Two stores in which \<^verbatim>\<open>populate\<close> finds the same names: the same users under the same
  names and addresses, and the same businesses and products under the same names.
\<close>

definition same_names :: "world \<Rightarrow> world \<Rightarrow> bool" where
  "same_names w1 w2 =
     ((\<forall>uid. map_option (\<lambda>u. (user_name u, user_email u)) (userModel w1 uid) =
              map_option (\<lambda>u. (user_name u, user_email u)) (userModel w2 uid))
      \<and> (\<forall>bid. map_option business_name (businessModel w1 bid) =
                map_option business_name (businessModel w2 bid))
      \<and> (\<forall>pid. map_option name (productModel w1 pid) = map_option name (productModel w2 pid)))"

subsection \<open>A shop to run the handlers on\<close>

definition item_A :: product where
  "item_A = \<lparr>name = ''Item A'', description = ''Desc'', price = 10, quantity = 5,
             businessId = ''biz1'', createdAt = 0\<rparr>"

definition item_B :: product where
  "item_B = \<lparr>name = ''Item B'', description = ''Desc'', price = 4, quantity = 0,
             businessId = ''biz1'', createdAt = 0\<rparr>"

definition alice :: user where
  "alice = \<lparr>user_name = ''Alice'', user_email = ''alice@example.com'', password = ''x'',
            user_role = Customer, user_businessId = None\<rparr>"

definition shop :: world where
  "shop = \<lparr>productModel = [''A'' \<mapsto> item_A, ''B'' \<mapsto> item_B],
           productIds = [''A'', ''B''],
           invoiceModel = [],
           userModel = [''alice'' \<mapsto> alice],
           userIds = [''alice''],
           businessModel = Map.empty,
           businessIds = [],
           clock = 1700000000000\<rparr>"

definition as_alice :: req_user where
  "as_alice = \<lparr>userId = ''alice'', role = Customer, user_id = None\<rparr>"

definition order :: "item list \<Rightarrow> invoice_body" where
  "order items = \<lparr>body_products = Some items, body_business = Some ''biz1'',
                  body_customer = None, body_invoiceNumber = None\<rparr>"

text \<open>The shop half a second after Alice has ordered 2 of product A.\<close>

definition invoice_1 :: invoice where
  "invoice_1 =
     \<lparr>invoice_id = ''inv1'', customer = ''alice'', business = ''biz1'',
      products =
        [\<lparr>line_product = ''A'', line_quantity = 2, pricePerUnit = 10, totalPrice = 20\<rparr>],
      totalAmount = 20, purchaseDate = 1700000000000,
      invoiceNumber = ''INV-1700000000000''\<rparr>"

definition shop_later :: world where
  "shop_later =
     shop\<lparr>productModel := [''A'' \<mapsto> item_A\<lparr>quantity := 3\<rparr>, ''B'' \<mapsto> item_B],
          invoiceModel := [invoice_1],
          clock := 1700000000500\<rparr>"


definition as_bob :: req_user where
  "as_bob = \<lparr>userId = ''bob'', role = Customer, user_id = None\<rparr>"

definition as_manager :: req_user where
  "as_manager = \<lparr>userId = ''carol'', role = Manager, user_id = None\<rparr>"

definition new_price :: "number \<Rightarrow> product_update" where
  "new_price v = \<lparr>set_name = None, set_description = None, set_price = Some v,
                  set_quantity = None, set_businessId = None\<rparr>"


text \<open>
  The shop with one product priced in tenths (the doubles nearest to 0.1, 0.2 and 0.3
  are the prices of C, D and E) and one priced at a large whole number.
\<close>

definition item_C :: product where
  "item_C = \<lparr>name = ''Item C'', description = ''Desc'', price = to_double (1 / 10),
             quantity = 100, businessId = ''biz1'', createdAt = 0\<rparr>"

definition item_D :: product where
  "item_D = item_C\<lparr>name := ''Item D'', price := to_double (2 / 10)\<rparr>"

definition item_E :: product where
  "item_E = item_C\<lparr>name := ''Item E'', price := to_double (3 / 10)\<rparr>"

definition item_F :: product where
  "item_F = item_C\<lparr>name := ''Item F'', price := 3002399751580331\<rparr>"

definition grocery :: world where
  "grocery = shop\<lparr>productModel := [''C'' \<mapsto> item_C, ''D'' \<mapsto> item_D, ''E'' \<mapsto> item_E,
                                     ''F'' \<mapsto> item_F],
                  productIds := [''C'', ''D'', ''E'', ''F'']\<rparr>"

text \<open>
  A warehouse whose stock of product A is beyond \<open>2\<^sup>5\<^sup>3\<close>, and a depot whose stock of
  product A is \<open>2\<^sup>5\<^sup>3\<close>.
\<close>

definition warehouse :: world where
  "warehouse = shop\<lparr>productModel := [''A'' \<mapsto> item_A\<lparr>quantity := 9007199254740996\<rparr>]\<rparr>"

definition depot :: world where
  "depot = shop\<lparr>productModel := [''A'' \<mapsto> item_A\<lparr>quantity := 9007199254740992\<rparr>]\<rparr>"

section \<open>Properties\<close>

subsection \<open>Rounding to a double\<close>

lemma round_half_even_of_int [simp]: "round_half_even (of_int n) = n"
  by (simp add: round_half_even_def)

lemma round_half_even_nonneg: "0 \<le> x \<Longrightarrow> 0 \<le> round_half_even x"
  by (auto simp: round_half_even_def Let_def)

text \<open>Rounding keeps the sign: a result that is not negative is rounded to one that is not.\<close>

lemma to_double_nonneg: "0 \<le> x \<Longrightarrow> 0 \<le> to_double x"
  by (auto simp: to_double_def Let_def intro!: mult_nonneg_nonneg round_half_even_nonneg
      divide_nonneg_pos)

lemma to_double_exact:
  assumes "x \<noteq> 0" and "x = of_int m * 2 powi (max (ilog2 \<bar>x\<bar>) (- 1022) - 52)"
  shows "to_double x = x"
proof -
  define ulp :: rat where "ulp = 2 powi (max (ilog2 \<bar>x\<bar>) (- 1022) - 52)"
  have ulp: "ulp \<noteq> 0" by (simp add: ulp_def)
  from assms(2) have x: "x = of_int m * ulp" by (simp add: ulp_def)
  then have "x / ulp = of_int m" using ulp by simp
  then have "round_half_even (x / ulp) = m" by (simp only: round_half_even_of_int)
  then have "of_int (round_half_even (x / ulp)) * ulp = x" using x by simp
  then show ?thesis using assms(1) by (simp add: to_double_def Let_def ulp_def)
qed

lemma bitlen_le_54:
  assumes "1 \<le> n" "n \<le> 2 ^ 53"
  shows "1 \<le> bitlen n \<and> bitlen n \<le> 54 \<and> (bitlen n = 54 \<longrightarrow> n = 2 ^ 53)"
proof -
  from assms have pos: "0 < n" by simp
  from bitlen_bounds[OF pos] have lo: "2 ^ nat (bitlen n - 1) \<le> n" and hi: "n < 2 ^ nat (bitlen n)"
    by simp_all
  have b1: "1 \<le> bitlen n"
  proof (rule ccontr)
    assume "\<not> 1 \<le> bitlen n"
    then have "nat (bitlen n) = 0" by simp
    with hi assms show False by simp
  qed
  have b2: "bitlen n \<le> 54"
  proof (rule ccontr)
    assume "\<not> bitlen n \<le> 54"
    then have "54 \<le> nat (bitlen n - 1)" by simp
    then have "(2::int) ^ 54 \<le> 2 ^ nat (bitlen n - 1)"
      by (intro power_increasing) simp_all
    with lo assms(2) show False by simp
  qed
  have b3: "bitlen n = 54 \<longrightarrow> n = 2 ^ 53"
  proof
    assume "bitlen n = 54"
    with lo have "2 ^ 53 \<le> n" by simp
    with assms(2) show "n = 2 ^ 53" by simp
  qed
  from b1 b2 b3 show ?thesis by blast
qed

text \<open>A whole number up to \<open>2\<^sup>5\<^sup>3\<close> is a multiple of the spacing of the doubles around it.\<close>

lemma safe_integer_spacing:
  assumes "1 \<le> n" "n \<le> 2 ^ 53"
  shows "\<exists>m. (of_int n :: rat) =
           of_int m * 2 powi (max (ilog2 \<bar>of_int n :: rat\<bar>) (- 1022) - 52)"
proof -
  define e where "e = bitlen n - 1"
  from bitlen_le_54[OF assms] have e: "0 \<le> e" "e \<le> 53" "e = 53 \<longrightarrow> n = 2 ^ 53"
    by (auto simp: e_def)
  have abs: "\<bar>of_int n :: rat\<bar> = of_int n" using assms by simp
  have il: "ilog2 \<bar>of_int n :: rat\<bar> = e"
    using assms by (simp add: abs ilog2_def e_def)
  have mx: "max e (- 1022) = e" using e by simp
  have "\<exists>m. (of_int n :: rat) = of_int m * 2 powi (e - 52)"
  proof (cases "e = 53")
    case True
    with e have n: "n = 2 ^ 53" by simp
    have "(of_int n :: rat) = of_int (2 ^ 52) * 2 powi (e - 52)"
      by (simp add: True n)
    then show ?thesis ..
  next
    case False
    with e have le: "e \<le> 52" by simp
    define k where "k = nat (52 - e)"
    have pw: "(2::rat) powi (e - 52) = 1 / 2 ^ k"
      using le by (simp add: k_def power_int_def inverse_eq_divide power_one_over)
    have "(of_int n :: rat) = of_int (n * 2 ^ k) * 2 powi (e - 52)"
      by (simp add: pw)
    then show ?thesis ..
  qed
  then obtain m where m: "(of_int n :: rat) = of_int m * 2 powi (e - 52)" ..
  have "max (ilog2 \<bar>of_int n :: rat\<bar>) (- 1022) - 52 = e - 52"
    by (simp only: il mx)
  with m have "(of_int n :: rat) =
      of_int m * 2 powi (max (ilog2 \<bar>of_int n :: rat\<bar>) (- 1022) - 52)"
    by presburger
  then show ?thesis ..
qed

text \<open>Every whole number of magnitude up to \<open>2\<^sup>5\<^sup>3\<close> is a double.\<close>

lemma to_double_of_int:
  assumes "\<bar>n\<bar> \<le> 2 ^ 53"
  shows "to_double (of_int n) = of_int n"
proof -
  consider "n = 0" | "1 \<le> n" | "n \<le> - 1" by linarith
  then show ?thesis
  proof cases
    case 1
    then show ?thesis by (simp add: to_double_def)
  next
    case 2
    with assms have le: "n \<le> 2 ^ 53" by simp
    from safe_integer_spacing[OF 2 le] obtain m where
      "(of_int n :: rat) = of_int m * 2 powi (max (ilog2 \<bar>of_int n :: rat\<bar>) (- 1022) - 52)" ..
    moreover have "(of_int n :: rat) \<noteq> 0" using 2 by simp
    ultimately show ?thesis by (intro to_double_exact)
  next
    case 3
    then have pos: "1 \<le> - n" by simp
    from assms 3 have le: "- n \<le> 2 ^ 53" by simp
    from safe_integer_spacing[OF pos le] obtain m where
      m: "(of_int (- n) :: rat) =
            of_int m * 2 powi (max (ilog2 \<bar>of_int (- n) :: rat\<bar>) (- 1022) - 52)" ..
    have a: "\<bar>of_int (- n) :: rat\<bar> = \<bar>of_int n\<bar>" by simp
    from m have "(of_int n :: rat) =
        of_int (- m) * 2 powi (max (ilog2 \<bar>of_int n :: rat\<bar>) (- 1022) - 52)"
      unfolding a by simp
    moreover have "(of_int n :: rat) \<noteq> 0" using 3 by simp
    ultimately show ?thesis by (intro to_double_exact)
  qed
qed

lemma isInteger_iff: "isInteger x \<longleftrightarrow> (\<exists>n. x = of_int n)"
  by (auto simp: isInteger_def)

lemma isInteger_of_int [simp]: "isInteger (of_int n)"
  by (simp add: isInteger_def)

lemma isInteger_numeral [simp]: "isInteger (numeral k)" "isInteger (- numeral k)"
  "isInteger 0" "isInteger 1"
  by (simp_all add: isInteger_def)

lemma isInteger_arith:
  assumes "isInteger x" "isInteger y"
  shows "isInteger (x + y)" "isInteger (x - y)" "isInteger (x * y)"
proof -
  from assms obtain m n where "x = of_int m" "y = of_int n"
    by (auto simp: isInteger_iff)
  then have "x + y = of_int (m + n)" "x - y = of_int (m - n)" "x * y = of_int (m * n)"
    by simp_all
  then show "isInteger (x + y)" "isInteger (x - y)" "isInteger (x * y)"
    by (simp_all only: isInteger_of_int)
qed

lemma to_double_isInteger:
  assumes "isInteger x" "\<bar>x\<bar> \<le> 2 ^ 53"
  shows "to_double x = x"
proof -
  from assms(1) obtain n where n: "x = of_int n" by (auto simp: isInteger_iff)
  with assms(2) have "\<bar>of_int n :: rat\<bar> \<le> of_int (2 ^ 53)" by simp
  then have "\<bar>n\<bar> \<le> 2 ^ 53" by (simp only: of_int_abs[symmetric] of_int_le_iff)
  from to_double_of_int[OF this] n show ?thesis by simp
qed

lemma to_double_numeral [simp]:
  "numeral k \<le> (9007199254740992::rat) \<Longrightarrow> to_double (numeral k) = numeral k"
  "numeral k \<le> (9007199254740992::rat) \<Longrightarrow> to_double (- numeral k) = - numeral k"
  "to_double 0 = 0" "to_double 1 = 1"
  by (simp_all add: to_double_isInteger)

lemmas num_defs = num_add_def num_sub_def num_mul_def

text \<open>Taking away no more than there is leaves a number that is not negative.\<close>

lemma num_sub_nonneg: "\<not> x < y \<Longrightarrow> 0 \<le> num_sub x y"
  by (simp add: num_sub_def to_double_nonneg)

text \<open>Beyond \<open>2\<^sup>5\<^sup>3\<close> the doubles are \<open>2\<close> apart, and below \<open>1\<close> a tenth is not one of them.\<close>

lemma to_double_examples:
  "to_double 9007199254740993 = 9007199254740992"
  "to_double 9007199254740995 = 9007199254740996"
  "to_double (1 / 10) = 3602879701896397 / 36028797018963968"
  "to_double (2 / 10) = 3602879701896397 / 18014398509481984"
  "to_double (3 / 10) = 5404319552844595 / 18014398509481984"
  "to_double (3602879701896397 / 36028797018963968 + 3602879701896397 / 18014398509481984) =
     5404319552844596 / 18014398509481984"
  "to_double (5404319552844596 / 18014398509481984 + 5404319552844595 / 18014398509481984) =
     1351079888211149 / 2251799813685248"
  "to_double (3602879701896397 / 36028797018963968 * 3) = 1351079888211149 / 4503599627370496"
  by code_simp+

text \<open>Numbers as they appear in messages.\<close>

lemma show_number_examples:
  "show_number 5 = ''5''"
  "show_number (5 / 2) = ''2.5''"
  "show_number (1351079888211149 / 2251799813685248) = ''0.6000000000000001''"
  by code_simp+

subsection \<open>What a store operation leaves alone\<close>

lemma invoiceModel_unchanged [simp]:
  "invoiceModel (snd (save_new_user uid sb w)) = invoiceModel w"
  "invoiceModel (snd (save_new_business bid bb own w)) = invoiceModel w"
  "invoiceModel (snd (update_business bid bb w)) = invoiceModel w"
  "invoiceModel (snd (delete_business bid w)) = invoiceModel w"
  "invoiceModel (snd (save_new_product pid pb w)) = invoiceModel w"
  "invoiceModel (snd (save_product pid p w)) = invoiceModel w"
  "invoiceModel (snd (update_product pid upd w)) = invoiceModel w"
  "invoiceModel (snd (delete_product pid w)) = invoiceModel w"
  by (simp_all add: save_new_user_def save_new_business_def update_business_def
      delete_business_def save_new_product_def save_product_def update_product_def
      delete_product_def Let_def split: option.split)

lemma productModel_unchanged [simp]:
  "productModel (snd (save_new_user uid sb w)) = productModel w"
  "productModel (snd (save_new_business bid bb own w)) = productModel w"
  "productModel (snd (update_business bid bb w)) = productModel w"
  "productModel (snd (delete_business bid w)) = productModel w"
  "productModel (snd (save_invoice d w)) = productModel w"
  by (simp_all add: save_new_user_def save_new_business_def update_business_def
      delete_business_def save_invoice_def Let_def split: option.split)

lemma userModel_unchanged [simp]:
  "userModel (snd (save_new_business bid bb own w)) = userModel w"
  "userModel (snd (update_business bid bb w)) = userModel w"
  "userModel (snd (delete_business bid w)) = userModel w"
  "userModel (snd (save_new_product pid pb w)) = userModel w"
  "userModel (snd (save_product pid p w)) = userModel w"
  "userModel (snd (update_product pid upd w)) = userModel w"
  "userModel (snd (delete_product pid w)) = userModel w"
  "userModel (snd (save_invoice d w)) = userModel w"
  by (simp_all add: save_new_business_def update_business_def
      delete_business_def save_new_product_def save_product_def update_product_def
      delete_product_def save_invoice_def Let_def split: option.split)

lemma businessModel_unchanged [simp]:
  "businessModel (snd (save_new_user uid sb w)) = businessModel w"
  "businessModel (snd (save_new_product pid pb w)) = businessModel w"
  "businessModel (snd (save_product pid p w)) = businessModel w"
  "businessModel (snd (update_product pid upd w)) = businessModel w"
  "businessModel (snd (delete_product pid w)) = businessModel w"
  "businessModel (snd (save_invoice d w)) = businessModel w"
  by (simp_all add: save_new_user_def save_new_product_def save_product_def update_product_def
      delete_product_def save_invoice_def Let_def split: option.split)

lemma clock_unchanged [simp]:
  "clock (snd (save_new_user uid sb w)) = clock w"
  "clock (snd (save_new_business bid bb own w)) = clock w"
  "clock (snd (update_business bid bb w)) = clock w"
  "clock (snd (delete_business bid w)) = clock w"
  "clock (snd (save_new_product pid pb w)) = clock w"
  "clock (snd (save_product pid p w)) = clock w"
  "clock (snd (update_product pid upd w)) = clock w"
  "clock (snd (delete_product pid w)) = clock w"
  "clock (snd (save_invoice d w)) = clock w"
  by (simp_all add: save_new_user_def save_new_business_def update_business_def
      delete_business_def save_new_product_def save_product_def update_product_def
      delete_product_def save_invoice_def Let_def split: option.split)

lemma productModel_delete_product [simp]:
  "productModel (snd (delete_product pid w)) = (productModel w)(pid := None)"
  by (simp add: delete_product_def)

subsection \<open>The three ways of running a handler agree\<close>

lemma exec_step:
  "exec p w = (case p of Respond r \<Rightarrow> (r, w) | _ \<Rightarrow> exec (fst (step p w)) (snd (step p w)))"
  by (cases p) (simp_all add: split_beta split: option.split)

lemma exec_env_alone:
  "fst (exec_env p [] w) = fst (exec p w) \<and> fst (snd (exec_env p [] w)) = snd (exec p w)"
  by (induction p arbitrary: w) (simp_all add: interfere_def Let_def split_beta)

subsection \<open>The invoice loop, one item at a time\<close>

lemma unavailable_simps [simp]:
  "status (unavailable pid) = 400"
  "unavailable pid \<noteq> Json 201 payload"
  "Json 201 payload \<noteq> unavailable pid"
  "granted P r (unavailable pid) = 0"
  by (cases "(P, r, unavailable pid)" rule: granted.cases; simp add: unavailable_def)+

lemma exec_invoice_loop_Cons:
  "exec (invoice_loop (it # rest) acc amt k) w =
     (case productModel w (item_product it) of
        None \<Rightarrow>
          (unavailable (item_product it), w)
      | Some p \<Rightarrow>
          if quantity p < item_quantity it
          then (unavailable (item_product it), w)
          else exec (invoice_loop rest
                  (acc @ [\<lparr>line_product = item_product it, line_quantity = item_quantity it,
                           pricePerUnit = price p, totalPrice = num_mul (price p) (item_quantity it)\<rparr>])
                  (num_add amt (num_mul (price p) (item_quantity it))) k) (reserve_item it w))"
  by (simp add: save_product_def reserve_item_def split: option.split)

lemma exec_invoice_loop_refused:
  "\<not> in_stock w it \<Longrightarrow>
   exec (invoice_loop (it # rest) acc amt k) w =
     (unavailable (item_product it), w)"
  by (auto simp: exec_invoice_loop_Cons in_stock_def simp del: invoice_loop.simps
      split: option.splits)

lemma exec_invoice_loop_reservable:
  "reservable earlier w \<Longrightarrow>
   \<exists>acc' amt'. exec (invoice_loop (earlier @ rest) acc amt k) w =
      exec (invoice_loop rest acc' amt' k) (fold reserve_item earlier w)"
proof (induction earlier arbitrary: acc amt w)
  case Nil
  show ?case by auto
next
  case (Cons it its)
  from Cons.prems have ok: "in_stock w it" and rest: "reservable its (reserve_item it w)"
    by simp_all
  from ok obtain p where p: "productModel w (item_product it) = Some p"
    and enough: "\<not> quantity p < item_quantity it"
    by (auto simp: in_stock_def split: option.splits)
  from Cons.IH[OF rest] p enough show ?case
    by (simp del: invoice_loop.simps add: exec_invoice_loop_Cons)
qed

lemma invoiceModel_reserve_item: "invoiceModel (reserve_item it w) = invoiceModel w"
  by (simp add: reserve_item_def split: option.split)

lemma invoiceModel_fold_reserve_item: "invoiceModel (fold reserve_item its w) = invoiceModel w"
  by (induction its arbitrary: w) (simp_all add: invoiceModel_reserve_item)

subsection \<open>An order that fails part of the way\<close>

lemma createInvoice_refusal:
  assumes "body_products b = Some (earlier @ bad # later)"
    and "reservable earlier w"
    and "\<not> in_stock (fold reserve_item earlier w) bad"
  shows "exec (createInvoice u oid b) w =
           (unavailable (item_product bad), fold reserve_item earlier w)"
proof -
  obtain acc' amt' where
    "exec (invoice_loop (earlier @ bad # later) [] 0 (save_new_invoice u oid b)) w =
       exec (invoice_loop (bad # later) acc' amt' (save_new_invoice u oid b))
         (fold reserve_item earlier w)"
    using exec_invoice_loop_reservable[OF assms(2)] by blast
  with assms(1,3) show ?thesis
    by (simp add: createInvoice_def exec_invoice_loop_refused del: invoice_loop.simps)
qed

text \<open>
  Claim C2. When the items before \<open>bad\<close> each pass the stock guard in their turn and
  \<open>bad\<close> does not (its product is missing or has less than the quantity asked), the
  handler answers 400 with a message that ends in the identifier of \<open>bad\<close>'s product,
  whatever items follow; the store it leaves is the one in which the decrements of the
  earlier items have been applied, and the invoice collection is as it was.
\<close>

theorem createInvoice_first_failure:
  assumes "body_products b = Some (earlier @ bad # later)"
    and "reservable earlier w"
    and "\<not> in_stock (fold reserve_item earlier w) bad"
  shows "exec (createInvoice u oid b) w =
           (Json 400
              (Message (''Product unavailable or insufficient quantity: '' @ item_product bad)),
            fold reserve_item earlier w)
         \<and> invoiceModel (snd (exec (createInvoice u oid b) w)) = invoiceModel w"
  using createInvoice_refusal[OF assms, of u oid]
  by (simp add: unavailable_def invoiceModel_fold_reserve_item)

text \<open>
  The order \<open>[{A, 2}, {B, 3}]\<close> on the shop, where A has 5 in stock and B has none: the
  answer names B, A is left with 3, and there is no invoice.
\<close>

theorem createInvoice_first_failure_witness:
  "body_products (order [\<lparr>item_product = ''A'', item_quantity = 2\<rparr>,
                         \<lparr>item_product = ''B'', item_quantity = 3\<rparr>]) =
     Some ([\<lparr>item_product = ''A'', item_quantity = 2\<rparr>] @
           \<lparr>item_product = ''B'', item_quantity = 3\<rparr> # [])
   \<and> reservable [\<lparr>item_product = ''A'', item_quantity = 2\<rparr>] shop
   \<and> \<not> in_stock (fold reserve_item [\<lparr>item_product = ''A'', item_quantity = 2\<rparr>] shop)
         \<lparr>item_product = ''B'', item_quantity = 3\<rparr>
   \<and> fst (exec (createInvoice as_alice ''inv1''
              (order [\<lparr>item_product = ''A'', item_quantity = 2\<rparr>,
                      \<lparr>item_product = ''B'', item_quantity = 3\<rparr>])) shop) =
       Json 400 (Message ''Product unavailable or insufficient quantity: B'')
   \<and> quantityOnHand (snd (exec (createInvoice as_alice ''inv1''
              (order [\<lparr>item_product = ''A'', item_quantity = 2\<rparr>,
                      \<lparr>item_product = ''B'', item_quantity = 3\<rparr>])) shop)) ''A'' = Some 3
   \<and> invoiceModel (snd (exec (createInvoice as_alice ''inv1''
              (order [\<lparr>item_product = ''A'', item_quantity = 2\<rparr>,
                      \<lparr>item_product = ''B'', item_quantity = 3\<rparr>])) shop)) = []"
proof -
  let ?a = "\<lparr>item_product = ''A'', item_quantity = 2\<rparr>"
  let ?b = "\<lparr>item_product = ''B'', item_quantity = 3\<rparr>"
  have 1: "body_products (order [?a, ?b]) = Some ([?a] @ ?b # [])"
    by (simp add: order_def)
  have 2: "reservable [?a] shop"
    by (simp add: in_stock_def shop_def item_A_def)
  have 3: "\<not> in_stock (fold reserve_item [?a] shop) ?b"
    by (simp add: in_stock_def reserve_item_def num_defs shop_def item_A_def item_B_def)
  from createInvoice_first_failure[OF 1 2 3, of as_alice "''inv1''"]
  have "exec (createInvoice as_alice ''inv1'' (order [?a, ?b])) shop =
          (Json 400 (Message (''Product unavailable or insufficient quantity: '' @ item_product ?b)),
           fold reserve_item [?a] shop)"
    by (rule conjunct1)
  then show ?thesis using 1 2 3
    by (simp add: reserve_item_def quantityOnHand_def num_defs shop_def item_A_def)
qed

subsection \<open>Stock never goes below zero\<close>

lemma nonneg_stock_clock [simp]: "nonneg_stock (w\<lparr>clock := c\<rparr>) P = nonneg_stock w P"
  by (simp add: nonneg_stock_def)

lemma purchase_nonneg_stock:
  "nonneg_stock w P \<Longrightarrow> nonneg_stock (snd (exec (purchase pid d) w)) P"
  by (auto simp: purchase_def nonneg_stock_def save_product_def num_sub_nonneg
      split: option.splits if_splits)

lemma reserve_item_nonneg_stock:
  "in_stock w it \<Longrightarrow> nonneg_stock w P \<Longrightarrow> nonneg_stock (reserve_item it w) P"
  by (auto simp: in_stock_def nonneg_stock_def reserve_item_def num_sub_nonneg
      split: option.splits if_splits)

lemma save_new_invoice_nonneg_stock:
  "nonneg_stock w P \<Longrightarrow> nonneg_stock (snd (exec (save_new_invoice u oid b acc amt) w)) P"
  by (cases "fst (save_invoice \<lparr>d_id = oid, d_customer = userId u, d_business = body_business b,
        d_products = acc, d_totalAmount = amt, d_invoiceNumber = None\<rparr> w)")
     (simp_all add: save_new_invoice_def nonneg_stock_def)

lemma invoice_loop_nonneg_stock:
  assumes k: "\<And>acc amt w. nonneg_stock w P \<Longrightarrow> nonneg_stock (snd (exec (k acc amt) w)) P"
  shows "nonneg_stock w P \<Longrightarrow> nonneg_stock (snd (exec (invoice_loop items acc amt k) w)) P"
proof (induction items arbitrary: acc amt w)
  case Nil
  then show ?case by (simp add: k)
next
  case (Cons it rest)
  show ?case
  proof (cases "in_stock w it")
    case False
    with Cons.prems show ?thesis by (simp add: exec_invoice_loop_refused del: invoice_loop.simps)
  next
    case True
    then obtain p where p: "productModel w (item_product it) = Some p"
      and enough: "\<not> quantity p < item_quantity it"
      by (auto simp: in_stock_def split: option.splits)
    from True Cons.prems have "nonneg_stock (reserve_item it w) P"
      by (rule reserve_item_nonneg_stock)
    from Cons.IH[OF this] p enough show ?thesis
      by (simp add: exec_invoice_loop_Cons del: invoice_loop.simps)
  qed
qed

lemma createInvoice_nonneg_stock:
  "nonneg_stock w P \<Longrightarrow> nonneg_stock (snd (exec (createInvoice u oid b) w)) P"
  by (auto simp: createInvoice_def intro!: invoice_loop_nonneg_stock save_new_invoice_nonneg_stock
      split: option.split)

lemma core_request_nonneg_stock:
  "core_request r \<Longrightarrow> nonneg_stock w P \<Longrightarrow> nonneg_stock (snd (exec (handler r) w)) P"
  by (cases r) (simp_all add: purchase_nonneg_stock createInvoice_nonneg_stock)

lemma serve_nonneg_stock:
  "nonneg_stock w P \<Longrightarrow> \<forall>r\<in>set rs. core_request (snd r) \<Longrightarrow>
   nonneg_stock (snd (serve rs w)) P"
proof (induction rs arbitrary: w)
  case Nil
  then show ?case by simp
next
  case (Cons a rs)
  obtain ms r where a: "a = (ms, r)" by (cases a)
  from Cons.prems a
  have "nonneg_stock (snd (exec (handler r) (w\<lparr>clock := clock w + int ms\<rparr>))) P"
    by (simp add: core_request_nonneg_stock)
  from Cons.IH[OF this] Cons.prems(2) a show ?case
    by (simp add: split_beta)
qed

text \<open>The same under interleaving: a handler in flight never holds a negative quantity to save.\<close>

lemma harmless_purchase: "harmless (purchase pid d)"
  by (auto simp: purchase_def num_sub_nonneg split: option.splits)

lemma harmless_invoice_loop:
  "(\<And>acc amt. harmless (k acc amt)) \<Longrightarrow> harmless (invoice_loop items acc amt k)"
  by (induction items arbitrary: acc amt) (auto simp: num_sub_nonneg split: option.splits)

lemma harmless_createInvoice: "harmless (createInvoice u oid b)"
  by (auto simp: createInvoice_def save_new_invoice_def intro!: harmless_invoice_loop
      split: option.splits sum.splits)

lemma harmless_handler: "core_request r \<Longrightarrow> harmless (handler r)"
  by (cases r) (simp_all add: harmless_purchase harmless_createInvoice)

lemma step_harmless:
  "harmless p \<Longrightarrow> nonneg_stock w P \<Longrightarrow>
   harmless (fst (step p w)) \<and> nonneg_stock (snd (step p w)) P"
  by (cases p)
     (auto simp: nonneg_stock_def save_product_def split: option.splits if_splits)

lemma run_sched_harmless:
  "\<forall>p\<in>set ps. harmless p \<Longrightarrow> nonneg_stock w P \<Longrightarrow>
   nonneg_stock (snd (run_sched sched ps w)) P"
proof (induction sched arbitrary: ps w)
  case Nil
  then show ?case by simp
next
  case (Cons i sched)
  show ?case
  proof (cases "i < length ps")
    case False
    with Cons show ?thesis by simp
  next
    case True
    with Cons.prems have h: "harmless (ps ! i)" by simp
    from step_harmless[OF h Cons.prems(2)]
    have 1: "harmless (fst (step (ps ! i) w))" and 2: "nonneg_stock (snd (step (ps ! i) w)) P"
      by simp_all
    from 1 Cons.prems(1) have "\<forall>p\<in>set (ps[i := fst (step (ps ! i) w)]). harmless p"
      by (auto dest: set_update_subset_insert[THEN subsetD])
    from Cons.IH[OF this 2] True show ?thesis
      by (simp add: split_beta)
  qed
qed

text \<open>
  Claim C3. Start from a store in which the stock of product \<open>P\<close> is not negative and
  handle any sequence of product purchases and invoice creations. After every one of
  them (after the first \<open>n\<close>, for every \<open>n\<close>) the stock of \<open>P\<close> is not negative. The same
  holds when the handlers of these requests run interleaved, after every store
  operation of every schedule.
\<close>

theorem quantityOnHand_never_negative:
  assumes "nonneg_stock w P" and "\<forall>r\<in>set rs. core_request (snd r)"
  shows "nonneg_stock (snd (serve (take n rs) w)) P
         \<and> nonneg_stock (snd (run_sched sched (map (handler \<circ> snd) rs) w)) P"
proof
  from assms(2) have "\<forall>r\<in>set (take n rs). core_request (snd r)"
    by (meson in_set_takeD)
  with assms(1) show "nonneg_stock (snd (serve (take n rs) w)) P"
    by (rule serve_nonneg_stock)
next
  from assms(2) have "\<forall>p\<in>set (map (handler \<circ> snd) rs). harmless p"
    by (auto intro: harmless_handler)
  then show "nonneg_stock (snd (run_sched sched (map (handler \<circ> snd) rs) w)) P"
    using assms(1) by (rule run_sched_harmless)
qed

text \<open>
  A purchase of 2 and an order of 3 of product A, which has 5: handled in turn they
  leave 0; interleaved so that both read the stock before either writes, they leave 2.
\<close>

theorem quantityOnHand_never_negative_witness:
  "nonneg_stock shop ''A''
   \<and> list_all (\<lambda>r. core_request (snd r))
       [(0::nat, PATCH_quantity ''A'' (Some 2)),
        (5, POST_invoice as_alice ''inv1'' (order [\<lparr>item_product = ''A'', item_quantity = 3\<rparr>]))]
   \<and> nonneg_stock (snd (serve (take 2
       [(0::nat, PATCH_quantity ''A'' (Some 2)),
        (5, POST_invoice as_alice ''inv1'' (order [\<lparr>item_product = ''A'', item_quantity = 3\<rparr>]))])
       shop)) ''A''
   \<and> nonneg_stock (snd (run_sched [1, 0, 0, 1, 1] (map (handler \<circ> snd)
       [(0::nat, PATCH_quantity ''A'' (Some 2)),
        (5, POST_invoice as_alice ''inv1'' (order [\<lparr>item_product = ''A'', item_quantity = 3\<rparr>]))])
       shop)) ''A''
   \<and> quantityOnHand (snd (serve
       [(0::nat, PATCH_quantity ''A'' (Some 2)),
        (5, POST_invoice as_alice ''inv1'' (order [\<lparr>item_product = ''A'', item_quantity = 3\<rparr>]))]
       shop)) ''A'' = Some 0
   \<and> quantityOnHand (snd (run_sched [1, 0, 0, 1, 1] (map (handler \<circ> snd)
       [(0::nat, PATCH_quantity ''A'' (Some 2)),
        (5, POST_invoice as_alice ''inv1'' (order [\<lparr>item_product = ''A'', item_quantity = 3\<rparr>]))])
       shop)) ''A'' = Some 2"
proof -
  let ?rs = "[(0::nat, PATCH_quantity ''A'' (Some 2)),
        (5, POST_invoice as_alice ''inv1'' (order [\<lparr>item_product = ''A'', item_quantity = 3\<rparr>]))]"
  have 1: "nonneg_stock shop ''A''"
    by (simp add: nonneg_stock_def shop_def item_A_def)
  have 2: "\<forall>r\<in>set ?rs. core_request (snd r)"
    by simp
  have 3: "quantityOnHand (snd (serve ?rs shop)) ''A'' = Some 0"
    by (simp add: quantityOnHand_def purchase_def createInvoice_def save_new_invoice_def
        save_product_def save_invoice_def num_defs Let_def order_def shop_def item_A_def)
  have 4: "quantityOnHand (snd (run_sched [1, 0, 0, 1, 1] (map (handler \<circ> snd) ?rs) shop)) ''A''
           = Some 2"
    by (simp add: quantityOnHand_def purchase_def createInvoice_def save_new_invoice_def
        save_product_def save_invoice_def num_defs Let_def order_def shop_def item_A_def)
  from quantityOnHand_never_negative[OF 1 2, of 2 "[1, 0, 0, 1, 1]"] 1 3 4
  show ?thesis by simp
qed

subsection \<open>Reservations against one product\<close>

text \<open>
  Claim C1 asks that concurrent reservations never take more than the stock, under any
  interleaving. Two purchases of product A, which has 5 in stock, for 3 and for 4. Each
  handler reads the product (\<^verbatim>\<open>findById\<close>) and later writes the quantity it computed
  from what it read (\<^verbatim>\<open>save\<close>). Under the schedule read, read, write, write both are
  answered 200: 7 units are granted out of 5.
\<close>

theorem concurrent_purchases_oversell:
  "quantityOnHand shop ''A'' = Some 5
   \<and> fst (run_sched [0, 1, 0, 1]
        (map handler [PATCH_quantity ''A'' (Some 3), PATCH_quantity ''A'' (Some 4)]) shop) =
       [Respond (Json 200 (Purchased 2)), Respond (Json 200 (Purchased 1))]
   \<and> \<not> sum_list (map2 (granted_now ''A'')
          [PATCH_quantity ''A'' (Some 3), PATCH_quantity ''A'' (Some 4)]
          (fst (run_sched [0, 1, 0, 1]
             (map handler [PATCH_quantity ''A'' (Some 3), PATCH_quantity ''A'' (Some 4)]) shop)))
        \<le> 5"
  by (simp add: quantityOnHand_def purchase_def save_product_def num_defs shop_def item_A_def)

text \<open>
  Whole numbers up to \<open>2\<^sup>5\<^sup>3\<close> are doubles, so taking a whole number from a larger one in
  that range is exact.
\<close>

lemma num_sub_exact:
  assumes "isInteger q" "isInteger d" "0 \<le> d" "d \<le> q" "q \<le> 2 ^ 53"
  shows "num_sub q d = q - d"
proof -
  from assms have "\<bar>q - d\<bar> \<le> 2 ^ 53" by simp
  with isInteger_arith(2)[OF assms(1,2)] show ?thesis
    by (simp add: num_sub_def to_double_isInteger)
qed

text \<open>What one purchase takes from the stock of \<open>P\<close> when no other request runs in between.\<close>

lemma purchase_reserved:
  assumes "productModel w P = Some p"
    and "isInteger (quantity p)" "0 \<le> quantity p" "quantity p \<le> 2 ^ 53"
    and "whole_quantities (PATCH_quantity pid d)"
  shows "\<exists>p'. productModel (snd (exec (purchase pid d) w)) P = Some p'
           \<and> quantity p' = quantity p - reserved P (PATCH_quantity pid d) w
           \<and> isInteger (quantity p') \<and> 0 \<le> quantity p' \<and> quantity p' \<le> quantity p"
proof (cases d)
  case None
  with assms show ?thesis by (simp add: purchase_def)
next
  case (Some x)
  with assms(5) have x: "isInteger x" by simp
  show ?thesis
  proof (cases "pid = P \<and> 0 < x \<and> quantity p \<noteq> 0 \<and> \<not> x > quantity p")
    case True
    then have "num_sub (quantity p) x = quantity p - x"
      using assms(2,4) x by (intro num_sub_exact) simp_all
    with True assms(1-3) x Some show ?thesis
      by (simp add: purchase_def save_product_def isInteger_arith)
  next
    case False
    with assms(1-3) Some show ?thesis
      by (auto simp: purchase_def save_product_def split: option.splits)
  qed
qed

text \<open>What the loop of an order takes: the quantities of the items it reserves.\<close>

lemma reserved_items_reserved:
  assumes "productModel w P = Some p"
    and "isInteger (quantity p)" "0 \<le> quantity p" "quantity p \<le> 2 ^ 53"
    and "\<forall>it\<in>set items. isInteger (item_quantity it) \<and> 0 \<le> item_quantity it"
  shows "\<exists>p'. productModel (fold reserve_item (reserved_items items w) w) P = Some p'
           \<and> quantity p' = quantity p
                - sum_list (map item_quantity
                    (filter (\<lambda>it. item_product it = P) (reserved_items items w)))
           \<and> isInteger (quantity p') \<and> 0 \<le> quantity p' \<and> quantity p' \<le> quantity p"
  using assms
proof (induction items arbitrary: w p)
  case Nil
  then show ?case by simp
next
  case (Cons it rest)
  show ?case
  proof (cases "in_stock w it")
    case False
    with Cons.prems show ?thesis by simp
  next
    case True
    then obtain q where q: "productModel w (item_product it) = Some q"
      and enough: "\<not> quantity q < item_quantity it"
      by (auto simp: in_stock_def split: option.splits)
    from Cons.prems(5) have n: "isInteger (item_quantity it)" "0 \<le> item_quantity it"
      and rest: "\<forall>it\<in>set rest. isInteger (item_quantity it) \<and> 0 \<le> item_quantity it"
      by simp_all
    show ?thesis
    proof (cases "item_product it = P")
      case same: True
      with q Cons.prems(1) have qp: "q = p" by simp
      have exact: "num_sub (quantity p) (item_quantity it) = quantity p - item_quantity it"
        using Cons.prems(2,4) n enough qp by (intro num_sub_exact) simp_all
      let ?p1 = "p\<lparr>quantity := quantity p - item_quantity it\<rparr>"
      have 1: "productModel (reserve_item it w) P = Some ?p1"
        using same q qp exact by (simp add: reserve_item_def)
      have 2: "isInteger (quantity ?p1)" "0 \<le> quantity ?p1" "quantity ?p1 \<le> 2 ^ 53"
        using Cons.prems(2,4) n enough qp by (simp_all add: isInteger_arith)
      from Cons.IH[OF 1 2 rest] True same n show ?thesis
        by auto
    next
      case other: False
      have 1: "productModel (reserve_item it w) P = Some p"
        using other q Cons.prems(1) by (simp add: reserve_item_def)
      from Cons.IH[OF 1 Cons.prems(2,3,4) rest] True other show ?thesis
        by auto
    qed
  qed
qed

text \<open>
  The products that an invoice creation leaves behind are those of the store in which
  the decrements of the reserved items, and no others, have been applied.
\<close>

lemma productModel_save_new_invoice [simp]:
  "productModel (snd (exec (save_new_invoice u oid b acc amt) w)) = productModel w"
  by (cases "fst (save_invoice \<lparr>d_id = oid, d_customer = userId u, d_business = body_business b,
        d_products = acc, d_totalAmount = amt, d_invoiceNumber = None\<rparr> w)")
     (simp_all add: save_new_invoice_def)

lemma invoice_loop_productModel:
  "productModel (snd (exec (invoice_loop items acc amt (save_new_invoice u oid b)) w)) =
   productModel (fold reserve_item (reserved_items items w) w)"
proof (induction items arbitrary: acc amt w)
  case Nil
  show ?case by simp
next
  case (Cons it rest)
  show ?case
  proof (cases "in_stock w it")
    case False
    then show ?thesis by (simp add: exec_invoice_loop_refused del: invoice_loop.simps)
  next
    case True
    then obtain p where p: "productModel w (item_product it) = Some p"
      and enough: "\<not> quantity p < item_quantity it"
      by (auto simp: in_stock_def split: option.splits)
    from Cons.IH[of _ _ "reserve_item it w"] True p enough show ?thesis
      by (simp add: exec_invoice_loop_Cons del: invoice_loop.simps)
  qed
qed

lemma createInvoice_productModel:
  "productModel (snd (exec (createInvoice u oid b) w)) =
   productModel (fold reserve_item
     (reserved_items (case body_products b of None \<Rightarrow> [] | Some items \<Rightarrow> items) w) w)"
  by (cases "body_products b") (simp_all add: createInvoice_def invoice_loop_productModel)

lemma createInvoice_reserved:
  assumes "productModel w P = Some p"
    and "isInteger (quantity p)" "0 \<le> quantity p" "quantity p \<le> 2 ^ 53"
    and "whole_quantities (POST_invoice u oid b)"
  shows "\<exists>p'. productModel (snd (exec (createInvoice u oid b) w)) P = Some p'
           \<and> quantity p' = quantity p - reserved P (POST_invoice u oid b) w
           \<and> isInteger (quantity p') \<and> 0 \<le> quantity p' \<and> quantity p' \<le> quantity p"
proof (cases "body_products b")
  case None
  with assms show ?thesis by (simp add: createInvoice_def)
next
  case (Some items)
  with assms(5) have "\<forall>it\<in>set items. isInteger (item_quantity it) \<and> 0 \<le> item_quantity it"
    by (simp add: list_all_iff)
  from reserved_items_reserved[OF assms(1-4) this] Some show ?thesis
    by (simp add: createInvoice_productModel)
qed

lemma handler_reserved:
  assumes "core_request r" "whole_quantities r"
    and "productModel w P = Some p"
    and "isInteger (quantity p)" "0 \<le> quantity p" "quantity p \<le> 2 ^ 53"
  shows "\<exists>p'. productModel (snd (exec (handler r) w)) P = Some p'
           \<and> quantity p' = quantity p - reserved P r w
           \<and> isInteger (quantity p') \<and> 0 \<le> quantity p' \<and> quantity p' \<le> quantity p"
proof (cases r)
  case (PATCH_quantity pid d)
  from purchase_reserved[OF assms(3-6), of pid d] assms(2) PATCH_quantity show ?thesis
    by simp
next
  case (POST_invoice u oid b)
  from createInvoice_reserved[OF assms(3-6), of u oid b] assms(2) POST_invoice show ?thesis
    by simp
qed (use assms(1) in simp_all)

lemma serve_reserved:
  assumes "\<forall>r\<in>set rs. core_request (snd r) \<and> whole_quantities (snd r)"
    and "productModel w P = Some p"
    and "isInteger (quantity p)" "0 \<le> quantity p" "quantity p \<le> 2 ^ 53"
  shows "\<exists>p'. productModel (snd (serve rs w)) P = Some p'
           \<and> quantity p' = quantity p - total_reserved P rs w \<and> 0 \<le> quantity p'"
  using assms
proof (induction rs arbitrary: w p)
  case Nil
  then show ?case by simp
next
  case (Cons a rs)
  obtain ms r where a: "a = (ms, r)" by (cases a)
  let ?w0 = "w\<lparr>clock := clock w + int ms\<rparr>"
  from Cons.prems a have cr: "core_request r" "whole_quantities r" by simp_all
  from Cons.prems have p0: "productModel ?w0 P = Some p" by simp
  from handler_reserved[OF cr p0 Cons.prems(3,4,5)]
  obtain p1 where p1: "productModel (snd (exec (handler r) ?w0)) P = Some p1"
    "quantity p1 = quantity p - reserved P r ?w0"
    "isInteger (quantity p1)" "0 \<le> quantity p1" "quantity p1 \<le> quantity p"
    by blast
  from p1(5) Cons.prems(5) have le: "quantity p1 \<le> 2 ^ 53" by simp
  from Cons.prems(1) have "\<forall>r\<in>set rs. core_request (snd r) \<and> whole_quantities (snd r)" by simp
  from Cons.IH[OF this p1(1,3,4) le]
  obtain p2 where p2: "productModel (snd (serve rs (snd (exec (handler r) ?w0)))) P = Some p2"
    "quantity p2 = quantity p1 - total_reserved P rs (snd (exec (handler r) ?w0))"
    "0 \<le> quantity p2"
    by blast
  from p1(2) p2 a show ?case
    by (simp add: split_beta)
qed

text \<open>
  Claim C1, as the handlers implement it. The check and the decrement are two store
  operations (a read, then a write of the computed quantity), and the quantity is
  computed in double arithmetic. So the bound holds for requests that are handled one
  after the other on whole numbers that doubles can tell apart: for a product with a
  whole number \<open>0 \<le> Q \<le> 2\<^sup>5\<^sup>3\<close> on hand and any sequence of purchases and invoice creations
  that ask for whole quantities, none of them negative, the quantities reserved of that
  product add up to at most \<open>Q\<close>, and the stock that is left is \<open>Q\<close> less what was
  reserved. Every decrement that is applied counts as reserved, also that of an order
  which is refused at a later item.
\<close>

theorem sequential_requests_never_oversell:
  assumes "\<forall>r\<in>set rs. core_request (snd r) \<and> whole_quantities (snd r)"
    and "quantityOnHand w P = Some Q" and "isInteger Q" and "0 \<le> Q" and "Q \<le> 2 ^ 53"
  shows "total_reserved P rs w \<le> Q
         \<and> quantityOnHand (snd (serve rs w)) P = Some (Q - total_reserved P rs w)"
proof -
  from assms(2) obtain p where p: "productModel w P = Some p" "quantity p = Q"
    by (auto simp: quantityOnHand_def)
  with assms(3-5) have "isInteger (quantity p)" "0 \<le> quantity p" "quantity p \<le> 2 ^ 53"
    by simp_all
  from serve_reserved[OF assms(1) p(1) this] p(2) show ?thesis
    by (auto simp: quantityOnHand_def)
qed

text \<open>
  Purchases of 3 and of 4 of product A, which has 5, and then an order of 2 of A and 1
  of B, which has none: the first purchase is granted, the second is refused, and the
  order is refused at B after its 2 of A have been taken. 5 are reserved and none is
  left.
\<close>

theorem sequential_requests_never_oversell_witness:
  "list_all (\<lambda>r. core_request (snd r) \<and> whole_quantities (snd r))
     [(0::nat, PATCH_quantity ''A'' (Some 3)), (0, PATCH_quantity ''A'' (Some 4)),
      (1, POST_invoice as_alice ''inv1''
            (order [\<lparr>item_product = ''A'', item_quantity = 2\<rparr>,
                    \<lparr>item_product = ''B'', item_quantity = 1\<rparr>]))]
   \<and> quantityOnHand shop ''A'' = Some 5 \<and> isInteger 5 \<and> (0::number) \<le> 5 \<and> (5::number) \<le> 2 ^ 53
   \<and> total_reserved ''A''
         [(0::nat, PATCH_quantity ''A'' (Some 3)), (0, PATCH_quantity ''A'' (Some 4)),
          (1, POST_invoice as_alice ''inv1''
                (order [\<lparr>item_product = ''A'', item_quantity = 2\<rparr>,
                        \<lparr>item_product = ''B'', item_quantity = 1\<rparr>]))]
         shop = 5
   \<and> quantityOnHand (snd (serve
         [(0::nat, PATCH_quantity ''A'' (Some 3)), (0, PATCH_quantity ''A'' (Some 4)),
          (1, POST_invoice as_alice ''inv1''
                (order [\<lparr>item_product = ''A'', item_quantity = 2\<rparr>,
                        \<lparr>item_product = ''B'', item_quantity = 1\<rparr>]))]
         shop)) ''A'' = Some 0
   \<and> map status (fst (serve
         [(0::nat, PATCH_quantity ''A'' (Some 3)), (0, PATCH_quantity ''A'' (Some 4)),
          (1, POST_invoice as_alice ''inv1''
                (order [\<lparr>item_product = ''A'', item_quantity = 2\<rparr>,
                        \<lparr>item_product = ''B'', item_quantity = 1\<rparr>]))]
         shop)) = [200, 400, 400]"
proof -
  let ?rs = "[(0::nat, PATCH_quantity ''A'' (Some 3)), (0, PATCH_quantity ''A'' (Some 4)),
      (1, POST_invoice as_alice ''inv1''
            (order [\<lparr>item_product = ''A'', item_quantity = 2\<rparr>,
                    \<lparr>item_product = ''B'', item_quantity = 1\<rparr>]))]"
  have 1: "\<forall>r\<in>set ?rs. core_request (snd r) \<and> whole_quantities (snd r)"
    by (simp add: order_def)
  have 2: "quantityOnHand shop ''A'' = Some 5"
    by (simp add: quantityOnHand_def shop_def item_A_def)
  have 3: "map status (fst (serve ?rs shop)) = [200, 400, 400]"
    by (simp add: purchase_def createInvoice_def unavailable_def
        save_product_def num_defs Let_def order_def shop_def item_A_def item_B_def)
  have 4: "total_reserved ''A'' ?rs shop = 5"
    by (simp add: purchase_def createInvoice_def unavailable_def in_stock_def reserve_item_def
        save_product_def num_defs Let_def order_def shop_def item_A_def item_B_def)
  from sequential_requests_never_oversell[OF 1 2] 1 2 3 4
  show ?thesis by (simp add: list_all_iff)
qed

text \<open>
  Beyond \<open>2\<^sup>5\<^sup>3\<close> the bound fails also for requests handled one after the other. With
  9007199254740996 on hand, three purchases of 1 are each answered 200 and leave the
  stock as it is (the difference rounds back to it), and a purchase of the whole stock
  is answered 200 after them.
\<close>

lemma sequential_purchases_beyond_safe_integers:
  "quantityOnHand warehouse ''A'' = Some 9007199254740996
   \<and> fst (serve
        [(0, PATCH_quantity ''A'' (Some 1)), (0, PATCH_quantity ''A'' (Some 1)),
         (0, PATCH_quantity ''A'' (Some 1)), (0, PATCH_quantity ''A'' (Some 9007199254740996))]
        warehouse) =
       [Json 200 (Purchased 9007199254740996), Json 200 (Purchased 9007199254740996),
        Json 200 (Purchased 9007199254740996), Json 200 (Purchased 0)]
   \<and> total_reserved ''A''
        [(0, PATCH_quantity ''A'' (Some 1)), (0, PATCH_quantity ''A'' (Some 1)),
         (0, PATCH_quantity ''A'' (Some 1)), (0, PATCH_quantity ''A'' (Some 9007199254740996))]
        warehouse = 9007199254740999"
  by (simp add: quantityOnHand_def purchase_def save_product_def num_defs to_double_examples
      warehouse_def shop_def item_A_def)

text \<open>
  So it does for quantities that are not whole. With \<open>2\<^sup>5\<^sup>3\<close> on hand, a purchase of half
  a unit is answered 200 and leaves the stock as it is, and a purchase of the whole stock
  is answered 200 after it.
\<close>

lemma sequential_purchases_of_fractions:
  "quantityOnHand depot ''A'' = Some 9007199254740992
   \<and> fst (serve
        [(0, PATCH_quantity ''A'' (Some (1 / 2))),
         (0, PATCH_quantity ''A'' (Some 9007199254740992))] depot) =
       [Json 200 (Purchased 9007199254740992), Json 200 (Purchased 0)]
   \<and> total_reserved ''A''
        [(0, PATCH_quantity ''A'' (Some (1 / 2))),
         (0, PATCH_quantity ''A'' (Some 9007199254740992))] depot = 9007199254740992 + 1 / 2"
proof -
  have "num_sub 9007199254740992 (1 / 2) = 9007199254740992"
    "num_sub 9007199254740992 9007199254740992 = 0"
    by code_simp+
  then show ?thesis
    by (simp add: quantityOnHand_def purchase_def save_product_def depot_def shop_def item_A_def)
qed

subsection \<open>What a created invoice holds\<close>

text \<open>One turn of the loop while other requests change the store.\<close>

lemma exec_env_invoice_loop_Cons:
  "exec_env (invoice_loop (it # rest) acc amt k) envs w =
     (let w1 = interfere envs w in
      case productModel w1 (item_product it) of
        None \<Rightarrow>
          (unavailable (item_product it),
           w1, [(item_product it, None)])
      | Some p \<Rightarrow>
          if quantity p < item_quantity it
          then (unavailable (item_product it),
                w1, [(item_product it, Some p)])
          else
            (let w2 = interfere (tl envs) w1;
                 saved = save_product (item_product it)
                           (p\<lparr>quantity := num_sub (quantity p) (item_quantity it)\<rparr>) w2
             in case fst saved of
                  Some e \<Rightarrow>
                    (Json 500 (Failed ''Invoice creation failed'' e), snd saved,
                     [(item_product it, Some p)])
                | None \<Rightarrow>
                    (case exec_env (invoice_loop rest
                            (acc @ [\<lparr>line_product = item_product it,
                                     line_quantity = item_quantity it,
                                     pricePerUnit = price p,
                                     totalPrice = num_mul (price p) (item_quantity it)\<rparr>])
                            (num_add amt (num_mul (price p) (item_quantity it))) k) (tl (tl envs)) (snd saved) of
                       (r, w3, reads) \<Rightarrow> (r, w3, (item_product it, Some p) # reads))))"
  by (simp add: Let_def split: option.split prod.split)

lemma exec_env_save_new_invoice:
  assumes "exec_env (save_new_invoice u oid b acc amt) envs w = (Json 201 (Created ivc), w', reads)"
  shows "products ivc = acc \<and> totalAmount ivc = amt \<and> reads = []"
  using assms
  by (auto simp: save_new_invoice_def save_invoice_def Let_def split: option.splits if_splits)


lemma exec_env_invoice_loop_created:
  assumes "exec_env (invoice_loop items acc amt (save_new_invoice u oid b)) envs w =
             (Json 201 (Created ivc), w', reads)"
  shows "\<exists>new. products ivc = acc @ new
           \<and> totalAmount ivc = foldl num_add amt (map totalPrice new)
           \<and> (\<forall>l\<in>set new. totalPrice l = num_mul (pricePerUnit l) (line_quantity l))
           \<and> map (\<lambda>l. (line_product l, line_quantity l)) new =
               map (\<lambda>it. (item_product it, item_quantity it)) items
           \<and> map (\<lambda>l. (line_product l, Some (pricePerUnit l))) new =
               map (\<lambda>(pid, found). (pid, map_option price found)) reads"
  using assms
proof (induction items arbitrary: acc amt envs w reads)
  case Nil
  from exec_env_save_new_invoice[of u oid b acc amt envs w ivc w' reads] Nil
  show ?case by simp
next
  case (Cons it rest)
  let ?w1 = "interfere envs w"
  from Cons.prems obtain p where p: "productModel ?w1 (item_product it) = Some p"
    by (cases "productModel ?w1 (item_product it)")
       (simp_all add: exec_env_invoice_loop_Cons Let_def del: invoice_loop.simps)
  let ?l = "\<lparr>line_product = item_product it, line_quantity = item_quantity it,
             pricePerUnit = price p, totalPrice = num_mul (price p) (item_quantity it)\<rparr>"
  let ?saved = "save_product (item_product it)
                  (p\<lparr>quantity := num_sub (quantity p) (item_quantity it)\<rparr>)
                  (interfere (tl envs) ?w1)"
  from Cons.prems p have enough: "\<not> quantity p < item_quantity it"
    by (auto simp: exec_env_invoice_loop_Cons Let_def simp del: invoice_loop.simps)
  from Cons.prems p enough have saved: "fst ?saved = None"
    by (cases "fst ?saved")
       (simp_all add: exec_env_invoice_loop_Cons Let_def del: invoice_loop.simps)
  from Cons.prems p enough saved obtain reads' where
    run: "exec_env (invoice_loop rest (acc @ [?l])
            (num_add amt (num_mul (price p) (item_quantity it)))
            (save_new_invoice u oid b)) (tl (tl envs)) (snd ?saved) =
          (Json 201 (Created ivc), w', reads')"
    and reads: "reads = (item_product it, Some p) # reads'"
    by (auto simp: exec_env_invoice_loop_Cons Let_def simp del: invoice_loop.simps
        split: prod.splits)
  from Cons.IH[OF run] obtain new where new:
    "products ivc = (acc @ [?l]) @ new"
    "totalAmount ivc =
       foldl num_add (num_add amt (num_mul (price p) (item_quantity it))) (map totalPrice new)"
    "\<forall>l\<in>set new. totalPrice l = num_mul (pricePerUnit l) (line_quantity l)"
    "map (\<lambda>l. (line_product l, line_quantity l)) new =
       map (\<lambda>it. (item_product it, item_quantity it)) rest"
    "map (\<lambda>l. (line_product l, Some (pricePerUnit l))) new =
       map (\<lambda>(pid, found). (pid, map_option price found)) reads'"
    by blast
  show ?case
    by (rule exI[of _ "?l # new"]) (use new reads in simp)
qed

text \<open>
  Sums and products of whole numbers are exact as long as they stay within \<open>2\<^sup>5\<^sup>3\<close>.
\<close>

lemma num_mul_exact:
  assumes "isInteger x" "isInteger y" "\<bar>x * y\<bar> \<le> 2 ^ 53"
  shows "num_mul x y = x * y"
  using isInteger_arith(3)[OF assms(1,2)] assms(3)
  by (simp add: num_mul_def to_double_isInteger)

lemma foldl_num_add_exact:
  assumes "\<forall>x\<in>set xs. isInteger x" "isInteger a" "\<bar>a\<bar> + sum_list (map abs xs) \<le> 2 ^ 53"
  shows "foldl num_add a xs = a + sum_list xs"
  using assms
proof (induction xs arbitrary: a)
  case Nil
  show ?case by simp
next
  case (Cons x xs)
  have nonneg: "0 \<le> sum_list (map abs xs)"
    by (rule sum_list_nonneg) auto
  from Cons.prems have int: "isInteger (a + x)"
    by (simp add: isInteger_arith)
  from Cons.prems(3) nonneg have "\<bar>a + x\<bar> \<le> 2 ^ 53" by simp
  with int have step: "num_add a x = a + x"
    by (simp add: num_add_def to_double_isInteger)
  from Cons.prems(3) have "\<bar>a + x\<bar> + sum_list (map abs xs) \<le> 2 ^ 53" by simp
  from Cons.IH[OF _ int this] Cons.prems(1) step show ?case
    by simp
qed

lemma member_le_sum_list_abs:
  fixes f :: "'a \<Rightarrow> rat"
  shows "x \<in> set xs \<Longrightarrow> \<bar>f x\<bar> \<le> sum_list (map (\<lambda>y. \<bar>f y\<bar>) xs)"
proof (induction xs)
  case Nil
  then show ?case by simp
next
  case (Cons y ys)
  have nonneg: "0 \<le> sum_list (map (\<lambda>y. \<bar>f y\<bar>) ys)"
    by (rule sum_list_nonneg) auto
  from Cons nonneg show ?case by auto
qed

lemma exact_totals:
  assumes "\<forall>l\<in>set ls. totalPrice l = num_mul (pricePerUnit l) (line_quantity l)"
    and "\<forall>l\<in>set ls. isInteger (pricePerUnit l) \<and> isInteger (line_quantity l)"
    and "sum_list (map (\<lambda>l. \<bar>pricePerUnit l * line_quantity l\<bar>) ls) \<le> 2 ^ 53"
  shows "foldl num_add 0 (map totalPrice ls) = sum_list (map totalPrice ls)
         \<and> (\<forall>l\<in>set ls. totalPrice l = line_quantity l * pricePerUnit l)"
proof -
  have each: "totalPrice l = pricePerUnit l * line_quantity l" if "l \<in> set ls" for l
  proof -
    from member_le_sum_list_abs[OF that, of "\<lambda>l. pricePerUnit l * line_quantity l"] assms(3)
    have "\<bar>pricePerUnit l * line_quantity l\<bar> \<le> 2 ^ 53" by simp
    with assms(1,2) that show ?thesis by (simp add: num_mul_exact)
  qed
  then have same: "map totalPrice ls = map (\<lambda>l. pricePerUnit l * line_quantity l) ls"
    by simp
  have ints: "\<forall>x\<in>set (map totalPrice ls). isInteger x"
    using each assms(2) by (auto simp: isInteger_arith)
  have eq: "map (abs \<circ> totalPrice) ls = map (\<lambda>l. \<bar>pricePerUnit l * line_quantity l\<bar>) ls"
    using each by simp
  from assms(3) have "\<bar>0::rat\<bar> + sum_list (map abs (map totalPrice ls)) \<le> 2 ^ 53"
    by (simp add: eq)
  from foldl_num_add_exact[OF ints _ this]
  have "foldl num_add 0 (map totalPrice ls) = sum_list (map totalPrice ls)"
    by simp
  with each show ?thesis by (simp add: mult.commute)
qed

text \<open>
  Claim C5 says that the total is the sum of the line totals and each line total the
  quantity times the price per unit. The handler computes both in double arithmetic:
  an order of 3 of product F, priced at 3002399751580331, gets the line total
  9007199254740992, which is not 3 times the price; an order of one each of C, D and E,
  priced at 0.1, 0.2 and 0.3, gets the total 0.6000000000000001, which is not the sum of
  its line totals.
\<close>

theorem createInvoice_totals_are_rounded:
  "fst (exec (createInvoice as_alice ''inv1''
          (order [\<lparr>item_product = ''F'', item_quantity = 3\<rparr>])) grocery) =
     Json 201 (Created
       \<lparr>invoice_id = ''inv1'', customer = ''alice'', business = ''biz1'',
        products =
          [\<lparr>line_product = ''F'', line_quantity = 3, pricePerUnit = 3002399751580331,
            totalPrice = 9007199254740992\<rparr>],
        totalAmount = 9007199254740992, purchaseDate = 1700000000000,
        invoiceNumber = ''INV-1700000000000''\<rparr>)
   \<and> (3::number) * 3002399751580331 \<noteq> 9007199254740992
   \<and> fst (exec (createInvoice as_alice ''inv1''
          (order [\<lparr>item_product = ''C'', item_quantity = 1\<rparr>,
                  \<lparr>item_product = ''D'', item_quantity = 1\<rparr>,
                  \<lparr>item_product = ''E'', item_quantity = 1\<rparr>])) grocery) =
     Json 201 (Created
       \<lparr>invoice_id = ''inv1'', customer = ''alice'', business = ''biz1'',
        products =
          [\<lparr>line_product = ''C'', line_quantity = 1,
            pricePerUnit = 3602879701896397 / 36028797018963968,
            totalPrice = 3602879701896397 / 36028797018963968\<rparr>,
           \<lparr>line_product = ''D'', line_quantity = 1,
            pricePerUnit = 3602879701896397 / 18014398509481984,
            totalPrice = 3602879701896397 / 18014398509481984\<rparr>,
           \<lparr>line_product = ''E'', line_quantity = 1,
            pricePerUnit = 5404319552844595 / 18014398509481984,
            totalPrice = 5404319552844595 / 18014398509481984\<rparr>],
        totalAmount = 1351079888211149 / 2251799813685248, purchaseDate = 1700000000000,
        invoiceNumber = ''INV-1700000000000''\<rparr>)
   \<and> sum_list [3602879701896397 / 36028797018963968, 3602879701896397 / 18014398509481984,
               5404319552844595 / 18014398509481984]
       \<noteq> (1351079888211149 / 2251799813685248 :: number)
   \<and> show_number (1351079888211149 / 2251799813685248) = ''0.6000000000000001''"
proof -
  have 1: "fst (exec (createInvoice as_alice ''inv1''
          (order [\<lparr>item_product = ''F'', item_quantity = 3\<rparr>])) grocery) =
     Json 201 (Created
       \<lparr>invoice_id = ''inv1'', customer = ''alice'', business = ''biz1'',
        products =
          [\<lparr>line_product = ''F'', line_quantity = 3, pricePerUnit = 3002399751580331,
            totalPrice = 9007199254740992\<rparr>],
        totalAmount = 9007199254740992, purchaseDate = 1700000000000,
        invoiceNumber = ''INV-1700000000000''\<rparr>)"
    by code_simp
  have 2: "fst (exec (createInvoice as_alice ''inv1''
          (order [\<lparr>item_product = ''C'', item_quantity = 1\<rparr>,
                  \<lparr>item_product = ''D'', item_quantity = 1\<rparr>,
                  \<lparr>item_product = ''E'', item_quantity = 1\<rparr>])) grocery) =
     Json 201 (Created
       \<lparr>invoice_id = ''inv1'', customer = ''alice'', business = ''biz1'',
        products =
          [\<lparr>line_product = ''C'', line_quantity = 1,
            pricePerUnit = 3602879701896397 / 36028797018963968,
            totalPrice = 3602879701896397 / 36028797018963968\<rparr>,
           \<lparr>line_product = ''D'', line_quantity = 1,
            pricePerUnit = 3602879701896397 / 18014398509481984,
            totalPrice = 3602879701896397 / 18014398509481984\<rparr>,
           \<lparr>line_product = ''E'', line_quantity = 1,
            pricePerUnit = 5404319552844595 / 18014398509481984,
            totalPrice = 5404319552844595 / 18014398509481984\<rparr>],
        totalAmount = 1351079888211149 / 2251799813685248, purchaseDate = 1700000000000,
        invoiceNumber = ''INV-1700000000000''\<rparr>)"
    by code_simp
  from 1 2 show ?thesis by (simp add: show_number_examples)
qed

text \<open>
  Claim C5, as the handler computes it. Whenever the handler answers 201, with whatever
  the other requests did to the store between its store operations: the invoice's
  \<^verbatim>\<open>totalAmount\<close> is the sum of the \<^verbatim>\<open>totalPrice\<close> of its lines, added up from the first
  line on in double arithmetic; each line's \<^verbatim>\<open>totalPrice\<close> is the double product of its
  \<^verbatim>\<open>pricePerUnit\<close> and its quantity; the lines are the items of the request, in order; and
  the \<^verbatim>\<open>pricePerUnit\<close> of each line is the price of the product document that the handler's
  \<^verbatim>\<open>findById\<close> for that very item returned. When the prices and quantities are whole
  numbers and the magnitudes of the line totals add up to at most \<open>2\<^sup>5\<^sup>3\<close>, no rounding
  occurs: the total is the sum of the line totals and each line total is the quantity
  times the price per unit.
\<close>

theorem createInvoice_totals:
  assumes "exec_env (createInvoice u oid b) envs w = (Json 201 (Created ivc), w', reads)"
  shows "totalAmount ivc = foldl num_add 0 (map totalPrice (products ivc))
         \<and> (\<forall>l\<in>set (products ivc). totalPrice l = num_mul (pricePerUnit l) (line_quantity l))
         \<and> (\<exists>items. body_products b = Some items
              \<and> map (\<lambda>l. (line_product l, line_quantity l)) (products ivc) =
                  map (\<lambda>it. (item_product it, item_quantity it)) items)
         \<and> map (\<lambda>l. (line_product l, Some (pricePerUnit l))) (products ivc) =
             map (\<lambda>(pid, found). (pid, map_option price found)) reads
         \<and> ((\<forall>l\<in>set (products ivc). isInteger (pricePerUnit l) \<and> isInteger (line_quantity l))
              \<and> sum_list (map (\<lambda>l. \<bar>pricePerUnit l * line_quantity l\<bar>) (products ivc)) \<le> 2 ^ 53
             \<longrightarrow> totalAmount ivc = sum_list (map totalPrice (products ivc))
                 \<and> (\<forall>l\<in>set (products ivc). totalPrice l = line_quantity l * pricePerUnit l))"
proof -
  from assms obtain items where items: "body_products b = Some items" "items \<noteq> []"
    by (cases "body_products b") (auto simp: createInvoice_def split: if_splits)
  with assms have "exec_env (invoice_loop items [] 0 (save_new_invoice u oid b)) envs w =
             (Json 201 (Created ivc), w', reads)"
    by (simp add: createInvoice_def)
  from exec_env_invoice_loop_created[OF this]
  have total: "totalAmount ivc = foldl num_add 0 (map totalPrice (products ivc))"
    and each: "\<forall>l\<in>set (products ivc). totalPrice l = num_mul (pricePerUnit l) (line_quantity l)"
    and lines: "map (\<lambda>l. (line_product l, line_quantity l)) (products ivc) =
                  map (\<lambda>it. (item_product it, item_quantity it)) items"
    and prices: "map (\<lambda>l. (line_product l, Some (pricePerUnit l))) (products ivc) =
             map (\<lambda>(pid, found). (pid, map_option price found)) reads"
    by auto
  have exact: "totalAmount ivc = sum_list (map totalPrice (products ivc))
                 \<and> (\<forall>l\<in>set (products ivc). totalPrice l = line_quantity l * pricePerUnit l)"
    if "(\<forall>l\<in>set (products ivc). isInteger (pricePerUnit l) \<and> isInteger (line_quantity l))
        \<and> sum_list (map (\<lambda>l. \<bar>pricePerUnit l * line_quantity l\<bar>) (products ivc)) \<le> 2 ^ 53"
    using exact_totals[OF each] that total by simp
  from total each lines prices items(1) exact show ?thesis
    by blast
qed

text \<open>
  An order of 2 and then 1 of product A while a \<^verbatim>\<open>PUT /product/A\<close> raises the price from
  10 to 12 after the first item has been saved: the lines carry 10 and 12, and the total
  is 32.
\<close>

theorem createInvoice_totals_witness:
  "fst (exec_env
      (createInvoice as_alice ''inv1''
         (order [\<lparr>item_product = ''A'', item_quantity = 2\<rparr>,
                 \<lparr>item_product = ''A'', item_quantity = 1\<rparr>]))
      [id, id, snd \<circ> exec (updateProduct ''A'' (new_price 12))]
      shop) =
     Json 201 (Created
       \<lparr>invoice_id = ''inv1'', customer = ''alice'', business = ''biz1'',
        products =
          [\<lparr>line_product = ''A'', line_quantity = 2, pricePerUnit = 10, totalPrice = 20\<rparr>,
           \<lparr>line_product = ''A'', line_quantity = 1, pricePerUnit = 12, totalPrice = 12\<rparr>],
        totalAmount = 32, purchaseDate = 1700000000000,
        invoiceNumber = ''INV-1700000000000''\<rparr>)
   \<and> map (\<lambda>(pid, found). (pid, map_option price found)) (snd (snd (exec_env
      (createInvoice as_alice ''inv1''
         (order [\<lparr>item_product = ''A'', item_quantity = 2\<rparr>,
                 \<lparr>item_product = ''A'', item_quantity = 1\<rparr>]))
      [id, id, snd \<circ> exec (updateProduct ''A'' (new_price 12))]
      shop))) = [(''A'', Some 10), (''A'', Some 12)]
   \<and> foldl num_add 0 [20, 12] = 32
   \<and> num_mul 10 2 = 20 \<and> num_mul 12 1 = 12
   \<and> isInteger 10 \<and> isInteger 2 \<and> isInteger 12 \<and> isInteger 1
   \<and> sum_list [\<bar>10 * 2\<bar>, \<bar>12 * 1 :: number\<bar>] \<le> 2 ^ 53
   \<and> sum_list [20, 12 :: number] = 32"
proof -
  let ?run = "exec_env
      (createInvoice as_alice ''inv1''
         (order [\<lparr>item_product = ''A'', item_quantity = 2\<rparr>,
                 \<lparr>item_product = ''A'', item_quantity = 1\<rparr>]))
      [id, id, snd \<circ> exec (updateProduct ''A'' (new_price 12))]
      shop"
  let ?ivc = "\<lparr>invoice_id = ''inv1'', customer = ''alice'', business = ''biz1'',
        products =
          [\<lparr>line_product = ''A'', line_quantity = 2, pricePerUnit = 10, totalPrice = 20\<rparr>,
           \<lparr>line_product = ''A'', line_quantity = 1, pricePerUnit = 12, totalPrice = 12\<rparr>],
        totalAmount = 32, purchaseDate = 1700000000000,
        invoiceNumber = ''INV-1700000000000''\<rparr>"
  have r: "fst ?run = Json 201 (Created ?ivc)"
    by (simp add: createInvoice_def save_new_invoice_def save_product_def save_invoice_def
        pre_validate_def show_int_def show_digits.simps interfere_def updateProduct_def
        update_product_def apply_update_def new_price_def num_defs Let_def order_def
        as_alice_def shop_def item_A_def split_beta)
  then have "?run = (Json 201 (Created ?ivc), fst (snd ?run), snd (snd ?run))"
    by (simp add: prod_eq_iff)
  note T = createInvoice_totals[OF this]
  from T have total: "totalAmount ?ivc = foldl num_add 0 (map totalPrice (products ?ivc))"
    by (elim conjE)
  from T have each:
    "\<forall>l\<in>set (products ?ivc). totalPrice l = num_mul (pricePerUnit l) (line_quantity l)"
    by (elim conjE)
  from T have reads: "map (\<lambda>l. (line_product l, Some (pricePerUnit l))) (products ?ivc) =
             map (\<lambda>(pid, found). (pid, map_option price found)) (snd (snd ?run))"
    by (elim conjE)
  from T have "(\<forall>l\<in>set (products ?ivc). isInteger (pricePerUnit l) \<and> isInteger (line_quantity l))
        \<and> sum_list (map (\<lambda>l. \<bar>pricePerUnit l * line_quantity l\<bar>) (products ?ivc)) \<le> 2 ^ 53
       \<longrightarrow> totalAmount ?ivc = sum_list (map totalPrice (products ?ivc))
           \<and> (\<forall>l\<in>set (products ?ivc). totalPrice l = line_quantity l * pricePerUnit l)"
    by (elim conjE)
  moreover have whole: "isInteger (10::number)" "isInteger (2::number)" "isInteger (12::number)"
    "isInteger (1::number)" "sum_list [\<bar>10 * 2\<bar>, \<bar>12 * 1 :: number\<bar>] \<le> 2 ^ 53"
    by simp_all
  ultimately have exact: "totalAmount ?ivc = sum_list (map totalPrice (products ?ivc))"
    by simp
  from r total each reads exact whole show ?thesis
    by simp
qed

subsection \<open>The two ways an order can go\<close>

lemma not_reservable_split:
  "\<not> reservable items w \<Longrightarrow>
   \<exists>earlier bad later. items = earlier @ bad # later \<and> reservable earlier w
      \<and> \<not> in_stock (fold reserve_item earlier w) bad"
proof (induction items arbitrary: w)
  case Nil
  then show ?case by simp
next
  case (Cons it its)
  show ?case
  proof (cases "in_stock w it")
    case False
    then have "it # its = [] @ it # its \<and> reservable [] w \<and> \<not> in_stock (fold reserve_item [] w) it"
      by simp
    then show ?thesis by blast
  next
    case True
    with Cons.prems have "\<not> reservable its (reserve_item it w)" by simp
    from Cons.IH[OF this] obtain earlier bad later where
      "its = earlier @ bad # later" "reservable earlier (reserve_item it w)"
      "\<not> in_stock (fold reserve_item earlier (reserve_item it w)) bad"
      by blast
    with True have "it # its = (it # earlier) @ bad # later \<and> reservable (it # earlier) w
      \<and> \<not> in_stock (fold reserve_item (it # earlier) w) bad"
      by simp
    then show ?thesis by blast
  qed
qed

lemma clock_fold_reserve_item: "clock (fold reserve_item its w) = clock w"
  by (induction its arbitrary: w) (simp_all add: reserve_item_def split: option.split)

lemma createInvoice_reservable:
  assumes "body_products b = Some items" "items \<noteq> []" "reservable items w"
  shows "\<exists>acc amt. exec (createInvoice u oid b) w =
           exec (save_new_invoice u oid b acc amt) (fold reserve_item items w)"
  using exec_invoice_loop_reservable[OF assms(3), of "[]" "[]" 0 "save_new_invoice u oid b"] assms
  by (auto simp: createInvoice_def)

lemma createInvoice_not_reservable:
  assumes "body_products b = Some items" "\<not> reservable items w"
  shows "\<exists>earlier (bad::item). exec (createInvoice u oid b) w =
           (unavailable (item_product bad),
            fold reserve_item earlier w)"
proof -
  from not_reservable_split[OF assms(2)] obtain earlier bad later where
    s: "items = earlier @ bad # later" "reservable earlier w"
      "\<not> in_stock (fold reserve_item earlier w) bad"
    by blast
  from assms(1) s(1) have "body_products b = Some (earlier @ bad # later)" by simp
  from createInvoice_refusal[OF this s(2,3), of u oid] show ?thesis
    by blast
qed

lemma find_append_first:
  "find P (xs @ ys) = (case find P xs of None \<Rightarrow> find P ys | Some x \<Rightarrow> Some x)"
  by (induction xs) simp_all

lemma exec_save_new_invoice:
  "exec (save_new_invoice u oid b acc amt) w =
     (case body_business b of
        None \<Rightarrow> (Json 500 (Failed ''Invoice creation failed'' (ValidationFailed ''business'')), w)
      | Some bid \<Rightarrow>
          if oid \<in> set (map invoice_id (invoiceModel w))
          then (Json 500 (Failed ''Invoice creation failed'' (DuplicateKey ''_id'')), w)
          else if ''INV-'' @ show_int (clock w) \<in> set (map invoiceNumber (invoiceModel w))
          then (Json 500 (Failed ''Invoice creation failed'' (DuplicateKey ''invoiceNumber'')), w)
          else (Json 201 (Created
                  \<lparr>invoice_id = oid, customer = userId u, business = bid, products = acc,
                   totalAmount = amt, purchaseDate = clock w,
                   invoiceNumber = ''INV-'' @ show_int (clock w)\<rparr>),
                w\<lparr>invoiceModel := invoiceModel w @
                  [\<lparr>invoice_id = oid, customer = userId u, business = bid, products = acc,
                    totalAmount = amt, purchaseDate = clock w,
                    invoiceNumber = ''INV-'' @ show_int (clock w)\<rparr>]\<rparr>))"
  by (simp add: save_new_invoice_def save_invoice_def pre_validate_def Let_def split: option.split)

lemma createInvoice_created:
  assumes "exec (createInvoice u oid b) w = (Json 201 (Created ivc), w')"
  shows "\<exists>items bid. body_products b = Some items \<and> items \<noteq> [] \<and> reservable items w
           \<and> body_business b = Some bid
           \<and> oid \<notin> set (map invoice_id (invoiceModel w))
           \<and> ''INV-'' @ show_int (clock w) \<notin> set (map invoiceNumber (invoiceModel w))
           \<and> invoice_id ivc = oid \<and> customer ivc = userId u \<and> business ivc = bid
           \<and> purchaseDate ivc = clock w
           \<and> invoiceNumber ivc = ''INV-'' @ show_int (clock w)
           \<and> w' = (fold reserve_item items w)\<lparr>invoiceModel := invoiceModel w @ [ivc]\<rparr>"
proof -
  from assms obtain items where items: "body_products b = Some items" "items \<noteq> []"
    by (cases "body_products b") (auto simp: createInvoice_def split: if_splits)
  have r: "reservable items w"
  proof (rule ccontr)
    assume "\<not> reservable items w"
    from createInvoice_not_reservable[OF items(1) this, of u oid] assms show False
      by auto
  qed
  from createInvoice_reservable[OF items r, of u oid] assms
  obtain acc amt where
    e: "exec (save_new_invoice u oid b acc amt) (fold reserve_item items w) =
              (Json 201 (Created ivc), w')"
    by auto
  from e items r show ?thesis
    by (auto simp: exec_save_new_invoice invoiceModel_fold_reserve_item clock_fold_reserve_item
        split: option.splits if_splits)
qed

lemma createInvoice_number_taken:
  assumes "''INV-'' @ show_int (clock w) \<in> set (map invoiceNumber (invoiceModel w))"
  shows "status (fst (exec (createInvoice u oid b) w)) \<noteq> 201
         \<and> invoiceModel (snd (exec (createInvoice u oid b) w)) = invoiceModel w
         \<and> (\<forall>items. body_products b = Some items \<longrightarrow> items \<noteq> [] \<longrightarrow> reservable items w \<longrightarrow>
               body_business b \<noteq> None \<longrightarrow> oid \<notin> set (map invoice_id (invoiceModel w)) \<longrightarrow>
               fst (exec (createInvoice u oid b) w) =
                 Json 500 (Failed ''Invoice creation failed'' (DuplicateKey ''invoiceNumber'')))"
proof (cases "body_products b")
  case None
  then show ?thesis by (simp add: createInvoice_def)
next
  case (Some items)
  show ?thesis
  proof (cases "items = []")
    case True
    with Some show ?thesis by (simp add: createInvoice_def)
  next
    case False
    show ?thesis
    proof (cases "reservable items w")
      case True
      from createInvoice_reservable[OF Some False True, of u oid] obtain acc amt where
        "exec (createInvoice u oid b) w =
           exec (save_new_invoice u oid b acc amt) (fold reserve_item items w)"
        by blast
      with assms Some show ?thesis
        by (simp add: exec_save_new_invoice invoiceModel_fold_reserve_item
            clock_fold_reserve_item split: option.split)
    next
      case nr: False
      from createInvoice_not_reservable[OF Some nr, of u oid] obtain earlier and bad :: item where
        "exec (createInvoice u oid b) w =
           (unavailable (item_product bad),
            fold reserve_item earlier w)"
        by blast
      with Some nr show ?thesis
        by (simp add: invoiceModel_fold_reserve_item)
    qed
  qed
qed

subsection \<open>Invoice numbers\<close>

text \<open>
  Claim C8. The handler never passes an \<^verbatim>\<open>invoiceNumber\<close>, so on success the saved
  invoice is numbered \<^verbatim>\<open>INV-\<close> followed by the time of the save, and it is in the
  collection under its \<^verbatim>\<open>_id\<close>. A second creation in the same millisecond would get
  the same number: it is never answered 201 and adds no invoice, and when nothing else
  stops it first (its items are served, it names a business, its \<^verbatim>\<open>_id\<close> is new) it is
  answered 500 with the duplicate key error of the unique index on \<^verbatim>\<open>invoiceNumber\<close>.
\<close>

theorem invoiceNumber_from_timestamp:
  assumes "exec (createInvoice u oid b) w = (Json 201 (Created ivc), w')"
  shows "invoiceNumber ivc = ''INV-'' @ show_int (clock w)
         \<and> find_invoice w' oid = Some ivc
         \<and> clock w' = clock w
         \<and> status (fst (exec (createInvoice u2 oid2 b2) w')) \<noteq> 201
         \<and> invoiceModel (snd (exec (createInvoice u2 oid2 b2) w')) = invoiceModel w'
         \<and> (\<forall>items. body_products b2 = Some items \<longrightarrow> items \<noteq> [] \<longrightarrow> reservable items w' \<longrightarrow>
               body_business b2 \<noteq> None \<longrightarrow> oid2 \<notin> set (map invoice_id (invoiceModel w')) \<longrightarrow>
               fst (exec (createInvoice u2 oid2 b2) w') =
                 Json 500 (Failed ''Invoice creation failed'' (DuplicateKey ''invoiceNumber'')))"
proof -
  from createInvoice_created[OF assms] obtain items where
    c: "oid \<notin> set (map invoice_id (invoiceModel w))" "invoice_id ivc = oid"
       "invoiceNumber ivc = ''INV-'' @ show_int (clock w)"
       "w' = (fold reserve_item items w)\<lparr>invoiceModel := invoiceModel w @ [ivc]\<rparr>"
    by blast
  from c(1) have "find (\<lambda>d. invoice_id d = oid) (invoiceModel w) = None"
    by (auto simp: find_None_iff)
  with c have f: "find_invoice w' oid = Some ivc"
    by (simp add: find_invoice_def find_append_first)
  from c have k: "clock w' = clock w" by (simp add: clock_fold_reserve_item)
  from c k have "''INV-'' @ show_int (clock w') \<in> set (map invoiceNumber (invoiceModel w'))"
    by simp
  from createInvoice_number_taken[OF this, of u2 oid2 b2] c(3) f k show ?thesis
    by simp
qed

text \<open>
  Alice orders 2 of product A and, within the same millisecond, 1 more: the first order
  is invoice \<^verbatim>\<open>INV-1700000000000\<close>, the second is refused with the duplicate key error.
\<close>

theorem invoiceNumber_from_timestamp_witness:
  "fst (exec (createInvoice as_alice ''inv1''
          (order [\<lparr>item_product = ''A'', item_quantity = 2\<rparr>])) shop) =
     Json 201 (Created
       \<lparr>invoice_id = ''inv1'', customer = ''alice'', business = ''biz1'',
        products =
          [\<lparr>line_product = ''A'', line_quantity = 2, pricePerUnit = 10, totalPrice = 20\<rparr>],
        totalAmount = 20, purchaseDate = 1700000000000,
        invoiceNumber = ''INV-1700000000000''\<rparr>)
   \<and> fst (exec (createInvoice as_alice ''inv2''
          (order [\<lparr>item_product = ''A'', item_quantity = 1\<rparr>]))
        (snd (exec (createInvoice as_alice ''inv1''
          (order [\<lparr>item_product = ''A'', item_quantity = 2\<rparr>])) shop))) =
     Json 500 (Failed ''Invoice creation failed'' (DuplicateKey ''invoiceNumber''))
   \<and> map invoice_id (invoiceModel (snd (exec (createInvoice as_alice ''inv2''
          (order [\<lparr>item_product = ''A'', item_quantity = 1\<rparr>]))
        (snd (exec (createInvoice as_alice ''inv1''
          (order [\<lparr>item_product = ''A'', item_quantity = 2\<rparr>])) shop))))) = [''inv1'']"
proof -
  let ?first = "exec (createInvoice as_alice ''inv1''
          (order [\<lparr>item_product = ''A'', item_quantity = 2\<rparr>])) shop"
  let ?second = "exec (createInvoice as_alice ''inv2''
          (order [\<lparr>item_product = ''A'', item_quantity = 1\<rparr>])) (snd ?first)"
  let ?ivc = "\<lparr>invoice_id = ''inv1'', customer = ''alice'', business = ''biz1'',
        products =
          [\<lparr>line_product = ''A'', line_quantity = 2, pricePerUnit = 10, totalPrice = 20\<rparr>],
        totalAmount = 20, purchaseDate = 1700000000000,
        invoiceNumber = ''INV-1700000000000''\<rparr>"
  have r: "fst ?first = Json 201 (Created ?ivc)"
    by (simp add: createInvoice_def save_new_invoice_def save_product_def save_invoice_def
        pre_validate_def show_int_def show_digits.simps num_defs Let_def order_def as_alice_def
        shop_def item_A_def)
  have w: "productModel (snd ?first) ''A'' = Some (item_A\<lparr>quantity := 3\<rparr>)"
    "map invoice_id (invoiceModel (snd ?first)) = [''inv1'']"
    by (simp_all add: createInvoice_def save_new_invoice_def save_product_def save_invoice_def
        num_defs Let_def order_def shop_def item_A_def)
  from r have h: "?first = (Json 201 (Created ?ivc), snd ?first)"
    by (simp add: prod_eq_iff)
  have ok: "reservable [\<lparr>item_product = ''A'', item_quantity = 1\<rparr>] (snd ?first)"
    using w(1) by (simp add: in_stock_def)
  have b: "body_products (order [\<lparr>item_product = ''A'', item_quantity = 1\<rparr>]) =
             Some [\<lparr>item_product = ''A'', item_quantity = 1\<rparr>]"
    "body_business (order [\<lparr>item_product = ''A'', item_quantity = 1\<rparr>]) \<noteq> None"
    by (simp_all add: order_def)
  have fresh: "''inv2'' \<notin> set (map invoice_id (invoiceModel (snd ?first)))"
    using w(2) by simp
  note T = invoiceNumber_from_timestamp[OF h, of as_alice "''inv2''"
      "order [\<lparr>item_product = ''A'', item_quantity = 1\<rparr>]"]
  from T have same: "invoiceModel (snd ?second) = invoiceModel (snd ?first)"
    by (elim conjE)
  from T have "\<forall>items. body_products (order [\<lparr>item_product = ''A'', item_quantity = 1\<rparr>]) =
        Some items \<longrightarrow> items \<noteq> [] \<longrightarrow> reservable items (snd ?first) \<longrightarrow>
        body_business (order [\<lparr>item_product = ''A'', item_quantity = 1\<rparr>]) \<noteq> None \<longrightarrow>
        ''inv2'' \<notin> set (map invoice_id (invoiceModel (snd ?first))) \<longrightarrow>
        fst ?second = Json 500 (Failed ''Invoice creation failed'' (DuplicateKey ''invoiceNumber''))"
    by (elim conjE)
  with b ok fresh
  have "fst ?second = Json 500 (Failed ''Invoice creation failed'' (DuplicateKey ''invoiceNumber''))"
    by blast
  with r same w(2) show ?thesis by simp
qed

subsection \<open>Whose invoice, and for which business\<close>

lemma same_stock_productModel:
  assumes "same_stock_and_invoices w1 w2"
  shows "(productModel w1 pid = None \<and> productModel w2 pid = None)
         \<or> (\<exists>p1 p2. productModel w1 pid = Some p1 \<and> productModel w2 pid = Some p2
               \<and> price p1 = price p2 \<and> quantity p1 = quantity p2)"
proof -
  from assms have "map_option (\<lambda>p. (price p, quantity p)) (productModel w1 pid) =
                   map_option (\<lambda>p. (price p, quantity p)) (productModel w2 pid)"
    by (simp add: same_stock_and_invoices_def)
  then show ?thesis
    by (cases "productModel w1 pid"; cases "productModel w2 pid") auto
qed

lemma same_stock_reserve_item:
  assumes "same_stock_and_invoices w1 w2"
  shows "same_stock_and_invoices (reserve_item it w1) (reserve_item it w2)"
  using same_stock_productModel[OF assms, of "item_product it"] assms
  by (auto simp: same_stock_and_invoices_def reserve_item_def)

lemma same_stock_invoice_loop:
  assumes k: "\<And>acc amt w1 w2. same_stock_and_invoices w1 w2 \<Longrightarrow>
                fst (exec (k acc amt) w1) = fst (exec (k acc amt) w2)"
  shows "same_stock_and_invoices w1 w2 \<Longrightarrow>
         fst (exec (invoice_loop items acc amt k) w1) = fst (exec (invoice_loop items acc amt k) w2)"
proof (induction items arbitrary: acc amt w1 w2)
  case Nil
  then show ?case by (simp add: k)
next
  case (Cons it rest)
  from same_stock_productModel[OF Cons.prems, of "item_product it"]
  show ?case
  proof (elim disjE conjE exE)
    assume "productModel w1 (item_product it) = None" "productModel w2 (item_product it) = None"
    then show ?thesis by (simp add: exec_invoice_loop_Cons del: invoice_loop.simps)
  next
    fix p1 p2
    assume p: "productModel w1 (item_product it) = Some p1"
      "productModel w2 (item_product it) = Some p2"
      "price p1 = price p2" "quantity p1 = quantity p2"
    from Cons.prems have "same_stock_and_invoices (reserve_item it w1) (reserve_item it w2)"
      by (rule same_stock_reserve_item)
    from Cons.IH[OF this] p show ?thesis
      by (simp add: exec_invoice_loop_Cons del: invoice_loop.simps)
  qed
qed

lemma same_stock_createInvoice:
  assumes "same_stock_and_invoices w1 w2"
  shows "fst (exec (createInvoice u oid b) w1) = fst (exec (createInvoice u oid b) w2)"
proof -
  have "\<And>acc amt w1 w2. same_stock_and_invoices w1 w2 \<Longrightarrow>
          fst (exec (save_new_invoice u oid b acc amt) w1) =
          fst (exec (save_new_invoice u oid b acc amt) w2)"
    by (simp add: exec_save_new_invoice same_stock_and_invoices_def split: option.split)
  from same_stock_invoice_loop[of "save_new_invoice u oid b", OF this assms] show ?thesis
    by (simp add: createInvoice_def split: option.split)
qed

lemma createInvoice_ignores_customer:
  "createInvoice u oid (b\<lparr>body_customer := c\<rparr>) = createInvoice u oid b"
proof -
  have "save_new_invoice u oid (b\<lparr>body_customer := c\<rparr>) = save_new_invoice u oid b"
    by (intro ext) (simp add: save_new_invoice_def)
  then show ?thesis by (simp add: createInvoice_def split: option.split)
qed

text \<open>
  Claim C10. On success the invoice's customer is the \<^verbatim>\<open>userId\<close> of the authenticated
  caller and its business is the one the request body names. A \<^verbatim>\<open>customer\<close> field in the
  body changes nothing. The answer is the same on every store that has the same
  invoices, time, prices and quantities: whether the business exists, and which
  business the purchased products belong to, is never looked at.
\<close>

theorem invoice_customer_and_business:
  assumes "exec (createInvoice u oid b) w = (Json 201 (Created ivc), w')"
  shows "customer ivc = userId u
         \<and> body_business b = Some (business ivc)
         \<and> fst (exec (createInvoice u oid (b\<lparr>body_customer := c\<rparr>)) w) = Json 201 (Created ivc)
         \<and> (\<forall>w2. same_stock_and_invoices w w2 \<longrightarrow>
               fst (exec (createInvoice u oid b) w2) = Json 201 (Created ivc))"
proof -
  from createInvoice_created[OF assms]
  have "customer ivc = userId u" "body_business b = Some (business ivc)"
    by auto
  moreover from assms
  have "fst (exec (createInvoice u oid (b\<lparr>body_customer := c\<rparr>)) w) = Json 201 (Created ivc)"
    by (simp add: createInvoice_ignores_customer)
  moreover have "\<forall>w2. same_stock_and_invoices w w2 \<longrightarrow>
               fst (exec (createInvoice u oid b) w2) = Json 201 (Created ivc)"
    using same_stock_createInvoice[of w _ u oid b] assms by auto
  ultimately show ?thesis by blast
qed

text \<open>
  Alice orders product A, which belongs to business \<^verbatim>\<open>biz1\<close>, for a business \<^verbatim>\<open>biz9\<close> that
  does not exist, with \<^verbatim>\<open>customer: "mallory"\<close> in the body: the invoice is created for
  Alice and \<^verbatim>\<open>biz9\<close>.
\<close>

theorem invoice_customer_and_business_witness:
  "fst (exec (createInvoice as_alice ''inv1''
          \<lparr>body_products = Some [\<lparr>item_product = ''A'', item_quantity = 2\<rparr>],
           body_business = Some ''biz9'', body_customer = Some ''mallory'',
           body_invoiceNumber = None\<rparr>) shop) =
     Json 201 (Created
       \<lparr>invoice_id = ''inv1'', customer = ''alice'', business = ''biz9'',
        products =
          [\<lparr>line_product = ''A'', line_quantity = 2, pricePerUnit = 10, totalPrice = 20\<rparr>],
        totalAmount = 20, purchaseDate = 1700000000000,
        invoiceNumber = ''INV-1700000000000''\<rparr>)
   \<and> businessModel shop ''biz9'' = None
   \<and> map_option businessId (productModel shop ''A'') = Some ''biz1''
   \<and> same_stock_and_invoices shop (shop\<lparr>userModel := Map.empty\<rparr>)
   \<and> fst (exec (createInvoice as_alice ''inv1''
          \<lparr>body_products = Some [\<lparr>item_product = ''A'', item_quantity = 2\<rparr>],
           body_business = Some ''biz9'', body_customer = Some ''mallory'',
           body_invoiceNumber = None\<rparr>) (shop\<lparr>userModel := Map.empty\<rparr>)) =
     Json 201 (Created
       \<lparr>invoice_id = ''inv1'', customer = ''alice'', business = ''biz9'',
        products =
          [\<lparr>line_product = ''A'', line_quantity = 2, pricePerUnit = 10, totalPrice = 20\<rparr>],
        totalAmount = 20, purchaseDate = 1700000000000,
        invoiceNumber = ''INV-1700000000000''\<rparr>)"
proof -
  let ?b = "\<lparr>body_products = Some [\<lparr>item_product = ''A'', item_quantity = 2\<rparr>],
           body_business = Some ''biz9'', body_customer = Some ''mallory'',
           body_invoiceNumber = None\<rparr>"
  let ?ivc = "\<lparr>invoice_id = ''inv1'', customer = ''alice'', business = ''biz9'',
        products =
          [\<lparr>line_product = ''A'', line_quantity = 2, pricePerUnit = 10, totalPrice = 20\<rparr>],
        totalAmount = 20, purchaseDate = 1700000000000,
        invoiceNumber = ''INV-1700000000000''\<rparr>"
  let ?run = "exec (createInvoice as_alice ''inv1'' ?b) shop"
  have r: "fst ?run = Json 201 (Created ?ivc)"
    by (simp add: createInvoice_def save_new_invoice_def save_product_def save_invoice_def
        pre_validate_def show_int_def show_digits.simps num_defs Let_def as_alice_def
        shop_def item_A_def)
  then have h: "?run = (Json 201 (Created ?ivc), snd ?run)"
    by (simp add: prod_eq_iff)
  have s: "same_stock_and_invoices shop (shop\<lparr>userModel := Map.empty\<rparr>)"
    by (simp add: same_stock_and_invoices_def)
  have facts: "businessModel shop ''biz9'' = None"
    "map_option businessId (productModel shop ''A'') = Some ''biz1''"
    by (simp_all add: shop_def item_A_def)
  from invoice_customer_and_business[OF h, of "Some ''mallory''"]
  have "\<forall>w2. same_stock_and_invoices shop w2 \<longrightarrow>
          fst (exec (createInvoice as_alice ''inv1'' ?b) w2) = Json 201 (Created ?ivc)"
    by (elim conjE)
  with s have "fst (exec (createInvoice as_alice ''inv1'' ?b) (shop\<lparr>userModel := Map.empty\<rparr>)) =
     Json 201 (Created ?ivc)"
    by blast
  with r s facts show ?thesis by simp
qed

subsection \<open>Who may read an invoice\<close>

text \<open>
  When the user an invoice names as its customer is not in the user collection,
  \<^verbatim>\<open>populate\<close> leaves \<^verbatim>\<open>null\<close> and the handler's read of \<^verbatim>\<open>invoice.customer._id\<close> throws: a
  customer is then answered 500, whoever they are.
\<close>

lemma getInvoice_dangling_customer:
  fixes ivc :: invoice
  assumes "role u = Customer" "find_invoice w i = Some ivc" "userModel w (customer ivc) = None"
  shows "exec (getInvoice u i) w = (Json 500 (Failed ''Fetching invoice failed'' TypeError), w)"
  using assms by (simp add: getInvoice_def populate_def)

text \<open>
  Claim C9. A customer who asks for an invoice whose customer is a different (existing)
  user is answered 403 and the store is untouched. Whenever a customer is answered 200,
  the document is the populated invoice stored under that id, and its customer is the
  requester. A customer gets their own invoice, any other role gets every invoice that
  exists, and an id with no invoice is answered 404.
\<close>

theorem getInvoice_access:
  fixes ivc :: invoice
  shows
  "(role u = Customer \<and> find_invoice w i = Some ivc \<and> userModel w (customer ivc) \<noteq> None
      \<and> customer ivc \<noteq> userId u \<longrightarrow>
      exec (getInvoice u i) w = (Json 403 (Message ''Unauthorized access''), w))
   \<and> (role u = Customer \<and> fst (exec (getInvoice u i) w) = Json 200 (InvoiceDoc doc) \<longrightarrow>
      (\<exists>own. find_invoice w i = Some own \<and> customer own = userId u \<and> doc = populate w own))
   \<and> (role u = Customer \<and> find_invoice w i = Some ivc \<and> userModel w (customer ivc) \<noteq> None
      \<and> customer ivc = userId u \<longrightarrow>
      exec (getInvoice u i) w = (Json 200 (InvoiceDoc (populate w ivc)), w))
   \<and> (role u \<noteq> Customer \<and> find_invoice w i = Some ivc \<longrightarrow>
      exec (getInvoice u i) w = (Json 200 (InvoiceDoc (populate w ivc)), w))
   \<and> (find_invoice w i = None \<longrightarrow>
      exec (getInvoice u i) w = (Json 404 (Message ''Invoice not found''), w))"
  by (auto simp: getInvoice_def populate_def split: option.splits if_splits)

text \<open>
  Invoice \<^verbatim>\<open>inv1\<close> is Alice's. Bob, a customer, is answered 403; Alice and a manager get
  the invoice; an unknown id is answered 404.
\<close>

theorem getInvoice_access_witness:
  "role as_bob = Customer \<and> find_invoice shop_later ''inv1'' = Some invoice_1
   \<and> userModel shop_later (customer invoice_1) \<noteq> None
   \<and> customer invoice_1 \<noteq> userId as_bob
   \<and> exec (getInvoice as_bob ''inv1'') shop_later =
       (Json 403 (Message ''Unauthorized access''), shop_later)
   \<and> role as_alice = Customer \<and> customer invoice_1 = userId as_alice
   \<and> exec (getInvoice as_alice ''inv1'') shop_later =
       (Json 200 (InvoiceDoc (populate shop_later invoice_1)), shop_later)
   \<and> (\<exists>own. find_invoice shop_later ''inv1'' = Some own \<and> customer own = userId as_alice
         \<and> populate shop_later invoice_1 = populate shop_later own)
   \<and> role as_manager \<noteq> Customer
   \<and> exec (getInvoice as_manager ''inv1'') shop_later =
       (Json 200 (InvoiceDoc (populate shop_later invoice_1)), shop_later)
   \<and> find_invoice shop_later ''inv7'' = None
   \<and> exec (getInvoice as_bob ''inv7'') shop_later =
       (Json 404 (Message ''Invoice not found''), shop_later)"
proof -
  let ?doc = "populate shop_later invoice_1"
  have f: "find_invoice shop_later ''inv1'' = Some invoice_1"
    and n: "find_invoice shop_later ''inv7'' = None"
    by (simp_all add: find_invoice_def shop_later_def invoice_1_def)
  have c: "customer invoice_1 = ''alice''" by (simp add: invoice_1_def)
  have u: "userModel shop_later (customer invoice_1) \<noteq> None"
    by (simp add: c shop_later_def shop_def)
  have bob: "role as_bob = Customer" "customer invoice_1 \<noteq> userId as_bob"
    by (simp_all add: as_bob_def c)
  have alice: "role as_alice = Customer" "customer invoice_1 = userId as_alice"
    by (simp_all add: as_alice_def c)
  have manager: "role as_manager \<noteq> Customer"
    by (simp add: as_manager_def)
  from getInvoice_access[of as_bob shop_later "''inv1''" invoice_1 ?doc]
  have "role as_bob = Customer \<and> find_invoice shop_later ''inv1'' = Some invoice_1
          \<and> userModel shop_later (customer invoice_1) \<noteq> None
          \<and> customer invoice_1 \<noteq> userId as_bob \<longrightarrow>
        exec (getInvoice as_bob ''inv1'') shop_later =
          (Json 403 (Message ''Unauthorized access''), shop_later)"
    by (elim conjE)
  with bob f u have 1: "exec (getInvoice as_bob ''inv1'') shop_later =
          (Json 403 (Message ''Unauthorized access''), shop_later)"
    by blast
  from getInvoice_access[of as_alice shop_later "''inv1''" invoice_1 ?doc]
  have "role as_alice = Customer \<and> find_invoice shop_later ''inv1'' = Some invoice_1
          \<and> userModel shop_later (customer invoice_1) \<noteq> None
          \<and> customer invoice_1 = userId as_alice \<longrightarrow>
        exec (getInvoice as_alice ''inv1'') shop_later = (Json 200 (InvoiceDoc ?doc), shop_later)"
    by (elim conjE)
  with alice f u have 2: "exec (getInvoice as_alice ''inv1'') shop_later =
          (Json 200 (InvoiceDoc ?doc), shop_later)"
    by blast
  from getInvoice_access[of as_alice shop_later "''inv1''" invoice_1 ?doc]
  have "role as_alice = Customer
          \<and> fst (exec (getInvoice as_alice ''inv1'') shop_later) = Json 200 (InvoiceDoc ?doc) \<longrightarrow>
        (\<exists>own. find_invoice shop_later ''inv1'' = Some own \<and> customer own = userId as_alice
           \<and> ?doc = populate shop_later own)"
    by (elim conjE)
  with alice(1) 2 have 5: "\<exists>own. find_invoice shop_later ''inv1'' = Some own
      \<and> customer own = userId as_alice \<and> ?doc = populate shop_later own"
    by simp
  from getInvoice_access[of as_manager shop_later "''inv1''" invoice_1 ?doc]
  have "role as_manager \<noteq> Customer \<and> find_invoice shop_later ''inv1'' = Some invoice_1 \<longrightarrow>
        exec (getInvoice as_manager ''inv1'') shop_later = (Json 200 (InvoiceDoc ?doc), shop_later)"
    by (elim conjE)
  with manager f have 3: "exec (getInvoice as_manager ''inv1'') shop_later =
          (Json 200 (InvoiceDoc ?doc), shop_later)"
    by blast
  from getInvoice_access[of as_bob shop_later "''inv7''" invoice_1 ?doc]
  have "find_invoice shop_later ''inv7'' = None \<longrightarrow>
        exec (getInvoice as_bob ''inv7'') shop_later =
          (Json 404 (Message ''Invoice not found''), shop_later)"
    by (elim conjE)
  with n have 4: "exec (getInvoice as_bob ''inv7'') shop_later =
          (Json 404 (Message ''Invoice not found''), shop_later)"
    by blast
  from 1 2 3 4 5 f n u bob alice manager show ?thesis
    by (intro conjI)
qed


subsection \<open>Invoices do not change\<close>

lemma same_names_refl [simp]: "same_names w w"
  by (simp add: same_names_def)


lemma same_names_clock [simp]: "same_names (w1\<lparr>clock := c\<rparr>) w2 = same_names w1 w2"
  by (simp add: same_names_def)

lemma same_names_invoiceModel [simp]:
  "same_names (w1\<lparr>invoiceModel := xs\<rparr>) w2 = same_names w1 w2"
  by (simp add: same_names_def)





lemma invoiceModel_update_same: "invoiceModel w1 = xs \<Longrightarrow> w1\<lparr>invoiceModel := xs\<rparr> = w1"
  by auto

lemma fold_reserve_item_invoiceModel_same:
  "(fold reserve_item its w)\<lparr>invoiceModel := invoiceModel w\<rparr> = fold reserve_item its w"
  by (rule invoiceModel_update_same) (rule invoiceModel_fold_reserve_item)










text \<open>
  Stored invoices stay where they are: no handler but the creation of an invoice writes
  to the invoice collection, and that one appends to it.
\<close>

lemma find_invoice_clock [simp]: "find_invoice (w\<lparr>clock := c\<rparr>) i = find_invoice w i"
  by (simp add: find_invoice_def)


lemma find_invoice_fold_reserve_item [simp]:
  "find_invoice (fold reserve_item its w) i = find_invoice w i"
  by (simp add: find_invoice_def invoiceModel_fold_reserve_item)









subsection \<open>Quantities that are not positive\<close>

text \<open>
  The purchase handler answers 400 to a \<^verbatim>\<open>decrementBy\<close> that is not a number or not
  positive before it reads anything: its program has no store operation at all.
\<close>

lemma purchase_rejects_nonpositive:
  "decrementBy = None \<or> (\<exists>d. decrementBy = Some d \<and> d \<le> 0) \<Longrightarrow>
   purchase pid decrementBy =
     Respond (Json 400 (Message ''decrementBy must be a positive number''))"
  by (auto simp: purchase_def)

text \<open>
  Claim C4: a reservation whose quantity is zero or negative fails with a validation
  error before the stock is read or written, and all quantities stay as they are. The
  purchase handler does that; the invoice loop has no such check, and its guard
  \<^verbatim>\<open>product.quantity < quantity\<close> lets a negative quantity pass. An order of \<open>-2\<close> of
  product A (5 in stock, price 10) is answered 201 with a line of quantity \<open>-2\<close> and a
  total of \<open>-20\<close>, and the stock of A goes up to 7.
\<close>

theorem createInvoice_accepts_negative_quantity:
  "fst (exec (createInvoice as_alice ''inv1''
          (order [\<lparr>item_product = ''A'', item_quantity = - 2\<rparr>])) shop) =
     Json 201 (Created
       \<lparr>invoice_id = ''inv1'', customer = ''alice'', business = ''biz1'',
        products =
          [\<lparr>line_product = ''A'', line_quantity = - 2, pricePerUnit = 10, totalPrice = - 20\<rparr>],
        totalAmount = - 20, purchaseDate = 1700000000000,
        invoiceNumber = ''INV-1700000000000''\<rparr>)
   \<and> quantityOnHand shop ''A'' = Some 5
   \<and> quantityOnHand (snd (exec (createInvoice as_alice ''inv1''
          (order [\<lparr>item_product = ''A'', item_quantity = - 2\<rparr>])) shop)) ''A'' = Some 7"
  by (simp add: createInvoice_def save_new_invoice_def save_product_def save_invoice_def
      pre_validate_def show_int_def show_digits.simps num_defs Let_def quantityOnHand_def
      order_def as_alice_def shop_def item_A_def)

subsection \<open>Telling a missing product from a short one\<close>

text \<open>
  Claim C6 asks that a caller can tell a missing product from one that is short. An
  order of 3 of product B gets the same answer from the shop, where B exists and has
  none in stock, and from the shop without B: the caller of an invoice creation cannot
  tell the two failures apart.
\<close>

theorem createInvoice_same_answer_missing_or_short:
  "fst (exec (createInvoice as_alice ''inv1''
          (order [\<lparr>item_product = ''B'', item_quantity = 3\<rparr>])) shop) =
   fst (exec (createInvoice as_alice ''inv1''
          (order [\<lparr>item_product = ''B'', item_quantity = 3\<rparr>]))
          (shop\<lparr>productModel := (productModel shop)(''B'' := None)\<rparr>))
   \<and> quantityOnHand shop ''B'' = Some 0
   \<and> quantityOnHand (shop\<lparr>productModel := (productModel shop)(''B'' := None)\<rparr>) ''B'' = None"
  by (simp add: createInvoice_def quantityOnHand_def order_def shop_def item_B_def)

text \<open>
  Claim C6, as the handlers implement it. A purchase of a product that does not exist
  is answered 404 \<^verbatim>\<open>Product not found\<close>, and a purchase of more than the product has is
  answered 400 with a message about the stock: the caller can tell them apart. In an
  invoice creation an item whose product is missing and an item whose product is short
  get one and the same answer, 400 with a message that ends in the product's id.
\<close>

theorem reservation_failures:
  "(0 < d \<and> productModel w pid = None \<longrightarrow>
      exec (purchase pid (Some d)) w = (Json 404 (Message ''Product not found''), w))
   \<and> (0 < d \<and> productModel w pid = Some p \<and> quantity p < d \<longrightarrow>
      exec (purchase pid (Some d)) w =
        (Json 400 (Message (if quantity p = 0 then ''Product is out of stock''
                            else ''Only '' @ show_number (quantity p) @ '' item(s) in stock'')), w))
   \<and> (body_products b = Some (it # rest) \<and> \<not> in_stock w it \<longrightarrow>
      exec (createInvoice u oid b) w =
        (Json 400
           (Message (''Product unavailable or insufficient quantity: '' @ item_product it)), w))"
  by (auto simp: purchase_def createInvoice_def exec_invoice_loop_refused unavailable_def
      simp del: invoice_loop.simps)

text \<open>
  Product C does not exist, product B has none in stock and product A has 5: purchases
  of C, of 3 of B and of 7 of A, and an order of 3 of B.
\<close>

theorem reservation_failures_witness:
  "productModel shop ''C'' = None
   \<and> fst (exec (purchase ''C'' (Some 1)) shop) = Json 404 (Message ''Product not found'')
   \<and> quantityOnHand shop ''B'' = Some 0
   \<and> fst (exec (purchase ''B'' (Some 3)) shop) = Json 400 (Message ''Product is out of stock'')
   \<and> quantityOnHand shop ''A'' = Some 5
   \<and> fst (exec (purchase ''A'' (Some 7)) shop) = Json 400 (Message ''Only 5 item(s) in stock'')
   \<and> \<not> in_stock shop \<lparr>item_product = ''B'', item_quantity = 3\<rparr>
   \<and> fst (exec (createInvoice as_alice ''inv1''
          (order [\<lparr>item_product = ''B'', item_quantity = 3\<rparr>])) shop) =
       Json 400 (Message ''Product unavailable or insufficient quantity: B'')"
proof -
  let ?b3 = "\<lparr>item_product = ''B'', item_quantity = 3\<rparr>"
  have c: "productModel shop ''C'' = None"
    and b: "productModel shop ''B'' = Some item_B" "quantity item_B = 0"
    and a: "productModel shop ''A'' = Some item_A" "quantity item_A = 5"
    by (simp_all add: shop_def item_A_def item_B_def)
  have o: "body_products (order [?b3]) = Some (?b3 # [])" "\<not> in_stock shop ?b3"
    by (simp_all add: order_def in_stock_def b)
  from reservation_failures[of 1 shop "''C''"] c
  have 1: "exec (purchase ''C'' (Some 1)) shop = (Json 404 (Message ''Product not found''), shop)"
    by simp
  from reservation_failures[of 3 shop "''B''" item_B "order [?b3]" ?b3 "[]" as_alice "''inv1''"] b o
  have 2: "exec (purchase ''B'' (Some 3)) shop =
             (Json 400 (Message ''Product is out of stock''), shop)"
    and 3: "exec (createInvoice as_alice ''inv1'' (order [?b3])) shop =
             (Json 400 (Message ''Product unavailable or insufficient quantity: B''), shop)"
    by simp_all
  from reservation_failures[of 7 shop "''A''" item_A] a
  have 4: "exec (purchase ''A'' (Some 7)) shop =
             (Json 400 (Message ''Only 5 item(s) in stock''), shop)"
    by (simp add: show_number_examples)
  from 1 2 3 4 a b c o show ?thesis
    by (simp add: quantityOnHand_def)
qed

end
